theory Spec2Isabelle
  imports Main "HOL-Library.Word" "HOL-Library.AList"
begin

section \<open>The world state and the invocation context\<close>

text \<open>
  The contract is Go code that a host platform invokes, one public function per
  invocation, against a key-value world state. Go's \<open>int\<close> is a 64-bit two's complement
  integer on the platforms the contract is built for: \<open>+\<close>, \<open>-\<close> and \<open>*\<close> wrap around,
  and \<open><\<close>, \<open><=\<close> compare the signed values (\<open><s\<close> and \<open>\<le>s\<close> on words).

  An error is the message of the \<open>fmt.Errorf\<close>/\<open>errors.New\<close> call that produced it (the
  format string, its arguments left out); a panic is an error too. Every function of the
  contract takes the world state and returns its result together with the world state it
  leaves, also when it fails: what the platform does with the writes of a failed
  invocation (it discards them) is not part of the contract's code.

  The platform's own failures are left out: reading the caller's identity, reading a
  key, reading the timestamp, encoding a value as JSON and setting an event always
  succeed. Events are not part of the world state and are not modelled.
\<close>

type_synonym go_int = "64 word"

type_synonym error = string

text \<open>
  A key of the world state is either a plain string (a client id, an auction id, or one of
  the two constants \<open>totalSupply\<close> and \<open>MintBurn\<close>) or a composite key, which the stub
  builds from an object type and a list of attributes. The stub's composite keys live in a
  namespace of their own, so a composite key never equals a plain key and two composite
  keys are equal only if their parts are.
\<close>

datatype key = Plain string | Composite string "string list"

record St_am =
  sa_MintBurn :: string
  sa_Amount :: go_int
  sa_State :: string

text \<open>
  The field \<open>State\<close> of \<open>MintBurn\<close> is a Go map, which may be \<open>nil\<close> (\<open>None\<close>): reading a
  \<open>nil\<close> map gives the zero value, writing to it panics.
\<close>

record MintBurn =
  mb_State :: "(string \<rightharpoonup> St_am) option"

record FullBid =
  bid_Type :: string
  bid_Price :: go_int
  bid_Org :: string
  bid_Bidder :: string

record BidHash =
  hash_Org :: string
  hash_Hash :: string

text \<open>
  The two bid maps of an auction are association lists with one entry per key. The order
  of the list \<open>RevealedBids\<close> stands for the order in which a \<open>range\<close> loop visits the
  map, which Go leaves unspecified: what is proved for every list holds for every order.
  \<open>Time_started\<close> is a point in time in nanoseconds.
\<close>

record Auction =
  Type :: string
  ItemSold :: string
  Amount :: go_int
  PricePerKWh :: go_int
  Time_started :: int
  Time_remaining :: go_int
  Seller :: string
  Orgs :: "string list"
  PrivateBids :: "(key \<times> BidHash) list"
  RevealedBids :: "(key \<times> FullBid) list"
  Winner :: string
  Price :: go_int
  Status :: string

text \<open>
  The bytes stored under a key are the decimal text of an integer (\<open>strconv.Itoa\<close>), the
  JSON text of a \<open>MintBurn\<close>, or the JSON text of an \<open>Auction\<close>: the contract writes
  nothing else.
\<close>

datatype val = IntV go_int | MintBurnV MintBurn | AuctionV Auction

text \<open>
  The world state, and the journal of the writes issued so far (newest first; \<open>None\<close> is
  a deletion). A read sees the writes made before it. (A platform that serves the reads
  of an invocation from the state before the invocation agrees with this wherever an
  invocation does not read a key it has written.)
\<close>

record world =
  kv :: "key \<rightharpoonup> val"
  journal :: "(key \<times> val option) list"

text \<open>
  What the transaction context gives an invocation: the caller's identity and
  organisation, the transaction's timestamp and the peer's clock (both in nanoseconds).
  Three helpers of the contract are not in the sources; their outcome is a parameter:
  whether \<open>setAssetStateBasedEndorsement\<close> and \<open>addAssetStateBasedEndorsement\<close> succeed
  for an auction and an organisation, and whether \<open>queryAllBids\<close> accepts a final price
  against the revealed and the private bids. None of them writes a record of the world
  state.
\<close>

record ctx =
  ClientID :: string
  MSPID :: string
  TxTimestamp :: int
  Now :: int
  setEndorsement_ok :: "string \<Rightarrow> string \<Rightarrow> bool"
  addEndorsement_ok :: "string \<Rightarrow> string \<Rightarrow> bool"
  queryAllBids_ok :: "go_int \<Rightarrow> (key \<times> FullBid) list \<Rightarrow> (key \<times> BidHash) list \<Rightarrow> bool"

type_synonym 'a result = "(error + 'a) \<times> world"

subsection \<open>Constants\<close>

definition totalSupplyKey :: string where
  "totalSupplyKey = ''totalSupply''"

definition allowancePrefix :: string where
  "allowancePrefix = ''allowance''"

definition holdPrefix :: string where
  "holdPrefix = ''hold''"

definition MintBurnKey :: string where
  "MintBurnKey = ''MintBurn''"

definition stateOrder :: string where
  "stateOrder = ''Ordered''"

definition stateApproved :: string where
  "stateApproved = ''Approved''"

definition stateRejected :: string where
  "stateRejected = ''Rejected''"

definition bidKeyType :: string where
  "bidKeyType = ''bid''"

subsection \<open>The stub\<close>

definition GetState :: "key \<Rightarrow> world \<Rightarrow> val option" where
  "GetState k w = kv w k"

text \<open>\<open>PutState\<close> refuses the empty key.\<close>

definition PutState :: "key \<Rightarrow> val \<Rightarrow> world \<Rightarrow> error + world" where
  "PutState k v w =
     (if k = Plain [] then Inl ''key must not be an empty string''
      else Inr (w\<lparr>kv := (kv w)(k \<mapsto> v), journal := (k, Some v) # journal w\<rparr>))"

definition DelState :: "key \<Rightarrow> world \<Rightarrow> error + world" where
  "DelState k w = Inr (w\<lparr>kv := (kv w)(k := None), journal := (k, None) # journal w\<rparr>)"

text \<open>
  \<open>CreateCompositeKey\<close> refuses an object type or an attribute that holds the separator
  (the zero byte). (It also refuses text that is not UTF-8, which is not modelled: the
  model's call succeeds wherever the stub's does.)
\<close>

definition CreateCompositeKey :: "string \<Rightarrow> string list \<Rightarrow> error + key" where
  "CreateCompositeKey objectType attributes =
     (if list_ex (\<lambda>s. CHR 0x00 \<in> set s) (objectType # attributes)
      then Inl ''not a valid utf8 string or contains the separator''
      else Inr (Composite objectType attributes))"

subsection \<open>Decoding stored bytes\<close>

text \<open>
  \<open>strconv.Atoi\<close> with its error dropped, as every call site does: the integer of a
  decimal text, and 0 for any other text.
\<close>

primrec Atoi :: "val \<Rightarrow> go_int" where
  "Atoi (IntV n) = n"
| "Atoi (MintBurnV m) = 0"
| "Atoi (AuctionV a) = 0"

text \<open>
  \<open>json.Unmarshal\<close> into a \<open>MintBurn\<close>: no bytes and a number are errors; the JSON object
  of an auction has no member \<open>state\<close>, which leaves the map \<open>nil\<close>.
\<close>

definition Unmarshal_MintBurn :: "val option \<Rightarrow> MintBurn option" where
  "Unmarshal_MintBurn bytes =
     (case bytes of
        None \<Rightarrow> None
      | Some (IntV n) \<Rightarrow> None
      | Some (MintBurnV m) \<Rightarrow> Some m
      | Some (AuctionV a) \<Rightarrow> Some \<lparr>mb_State = None\<rparr>)"

definition zero_St_am :: St_am where
  "zero_St_am = \<lparr>sa_MintBurn = [], sa_Amount = 0, sa_State = []\<rparr>"

text \<open>Reading a Go map: the zero value for a missing key and for a \<open>nil\<close> map.\<close>

definition map_index :: "(string \<rightharpoonup> St_am) option \<Rightarrow> string \<Rightarrow> St_am" where
  "map_index m k =
     (case m of None \<Rightarrow> zero_St_am
      | Some f \<Rightarrow> (case f k of None \<Rightarrow> zero_St_am | Some v \<Rightarrow> v))"

section \<open>The token ledger\<close>

definition ClientAccountBalance :: "ctx \<Rightarrow> world \<Rightarrow> go_int result" where
  "ClientAccountBalance c w =
     (case GetState (Plain (ClientID c)) w of
        None \<Rightarrow> (Inl ''the account %s does not exist'', w)
      | Some balanceBytes \<Rightarrow> (Inr (Atoi balanceBytes), w))"

definition BalanceOf :: "ctx \<Rightarrow> string \<Rightarrow> world \<Rightarrow> go_int result" where
  "BalanceOf c account w =
     (case GetState (Plain account) w of
        None \<Rightarrow> (Inl ''the account %s does not exist'', w)
      | Some balanceBytes \<Rightarrow> (Inr (Atoi balanceBytes), w))"

definition TotalSupply :: "ctx \<Rightarrow> world \<Rightarrow> go_int result" where
  "TotalSupply c w =
     (case GetState (Plain totalSupplyKey) w of
        None \<Rightarrow> (Inr 0, w)
      | Some totalSupplyBytes \<Rightarrow> (Inr (Atoi totalSupplyBytes), w))"

definition Mint :: "ctx \<Rightarrow> go_int \<Rightarrow> world \<Rightarrow> unit result" where
  "Mint c amount w =
     (let minter = ClientID c in
      if amount \<le>s 0 then (Inl ''mint amount must be a positive integer'', w)
      else
       (let currentBalance =
              (case GetState (Plain minter) w of None \<Rightarrow> 0 | Some b \<Rightarrow> Atoi b);
            updatedBalance = currentBalance + amount
        in
         (case PutState (Plain minter) (IntV updatedBalance) w of
            Inl e \<Rightarrow> (Inl e, w)
          | Inr w1 \<Rightarrow>
             (let totalSupply =
                    (case GetState (Plain totalSupplyKey) w1 of None \<Rightarrow> 0 | Some b \<Rightarrow> Atoi b)
              in
               (case PutState (Plain totalSupplyKey) (IntV (totalSupply + amount)) w1 of
                  Inl e \<Rightarrow> (Inl e, w1)
                | Inr w2 \<Rightarrow> (Inr (), w2))))))"

definition Burn :: "ctx \<Rightarrow> go_int \<Rightarrow> world \<Rightarrow> unit result" where
  "Burn c amount w =
     (if MSPID c \<noteq> ''Org1MSP'' then (Inl ''client is not authorized to mint new tokens'', w)
      else
       (let burner = ClientID c in
        if amount \<le>s 0 then (Inl ''burn amount must be a positive integer'', w)
        else
         (case GetState (Plain burner) w of
            None \<Rightarrow> (Inl ''the balance does not exist'', w)
          | Some b \<Rightarrow>
             (let currentBalance = Atoi b;
                  updatedBalance = currentBalance - amount
              in
               (case PutState (Plain burner) (IntV updatedBalance) w of
                  Inl e \<Rightarrow> (Inl e, w)
                | Inr w1 \<Rightarrow>
                   (case GetState (Plain totalSupplyKey) w1 of
                      None \<Rightarrow> (Inl ''totalSupply does not exist'', w1)
                    | Some t \<Rightarrow>
                       (case PutState (Plain totalSupplyKey) (IntV (Atoi t - amount)) w1 of
                          Inl e \<Rightarrow> (Inl e, w1)
                        | Inr w2 \<Rightarrow> (Inr (), w2))))))))"

definition CreateHold :: "ctx \<Rightarrow> go_int \<Rightarrow> world \<Rightarrow> unit result" where
  "CreateHold c amount w =
     (let clientID = ClientID c in
      if amount \<le>s 0 then (Inl ''hold amount must be a positive integer'', w)
      else
       (case GetState (Plain clientID) w of
          None \<Rightarrow> (Inl ''the balance does not exist'', w)
        | Some b \<Rightarrow>
           (let currentBalance = Atoi b;
                updatedBalance = currentBalance - amount
            in
             (case PutState (Plain clientID) (IntV updatedBalance) w of
                Inl e \<Rightarrow> (Inl ''failed to update state of smart contract for key %s: %v'', w)
              | Inr w1 \<Rightarrow>
                 (case CreateCompositeKey holdPrefix [clientID] of
                    Inl e \<Rightarrow> (Inl ''failed to create the composite key for prefix %s: %v'', w1)
                  | Inr holdkey \<Rightarrow>
                     (let hold_amount =
                            (case GetState holdkey w1 of
                               None \<Rightarrow> amount
                             | Some h \<Rightarrow> Atoi h + amount)
                      in
                       (case PutState holdkey (IntV hold_amount) w1 of
                          Inl e \<Rightarrow>
                            (Inl ''failed to update state of smart contract for key %s: %v'', w1)
                        | Inr w2 \<Rightarrow> (Inr (), w2))))))))"

definition ExecuteHold :: "ctx \<Rightarrow> string \<Rightarrow> go_int \<Rightarrow> world \<Rightarrow> unit result" where
  "ExecuteHold c holder amount w =
     (let clientID = ClientID c in
      if amount \<le>s 0 then (Inl ''hold amount must be a positive integer'', w)
      else
       (case CreateCompositeKey holdPrefix [holder] of
          Inl e \<Rightarrow> (Inl ''failed to create the composite key for prefix %s: %v'', w)
        | Inr holdkey \<Rightarrow>
           (case GetState holdkey w of
              None \<Rightarrow> (Inl ''failed to get hold amount '', w)
            | Some h \<Rightarrow>
               (let hold_amount = Atoi h in
                if hold_amount <s amount then (Inl ''error with hold amount'', w)
                else
                 (case GetState (Plain clientID) w of
                    None \<Rightarrow> (Inl ''the balance does not exist'', w)
                  | Some b \<Rightarrow>
                     (let updatedBalance = Atoi b + amount in
                       (case PutState (Plain clientID) (IntV updatedBalance) w of
                          Inl e \<Rightarrow>
                            (Inl ''failed to update state of smart contract for key %s: %v'', w)
                        | Inr w1 \<Rightarrow>
                           (case GetState (Plain holder) w1 of
                              None \<Rightarrow> (Inl ''the balance does not exist'', w1)
                            | Some bh \<Rightarrow>
                               (let updatedBalance_h = Atoi bh + hold_amount - amount in
                                 (case PutState (Plain holder) (IntV updatedBalance_h) w1 of
                                    Inl e \<Rightarrow>
                                      (Inl ''failed to update state of smart contract for key %s: %v'', w1)
                                  | Inr w2 \<Rightarrow>
                                     (case PutState holdkey (IntV hold_amount) w2 of
                                        Inl e \<Rightarrow>
                                          (Inl ''failed to update state of smart contract for key %s: %v'', w2)
                                      | Inr w3 \<Rightarrow> (Inr (), w3))))))))))))"

definition ReturnHold :: "ctx \<Rightarrow> string \<Rightarrow> world \<Rightarrow> unit result" where
  "ReturnHold c holder w =
     (case CreateCompositeKey holdPrefix [holder] of
        Inl e \<Rightarrow> (Inl ''failed to create the composite key for prefix %s: %v'', w)
      | Inr holdkey \<Rightarrow>
         (case GetState holdkey w of
            None \<Rightarrow> (Inl ''failed to get hold amount '', w)
          | Some h \<Rightarrow>
             (let hold_amount = Atoi h in
               (case GetState (Plain holder) w of
                  None \<Rightarrow> (Inl ''the balance does not exist'', w)
                | Some b \<Rightarrow>
                   (let updatedBalance = Atoi b + hold_amount in
                     (case PutState (Plain holder) (IntV updatedBalance) w of
                        Inl e \<Rightarrow>
                          (Inl ''failed to update state of smart contract for key %s: %v'', w)
                      | Inr w1 \<Rightarrow>
                         (case PutState holdkey (IntV 0) w1 of
                            Inl e \<Rightarrow>
                              (Inl ''failed to update state of smart contract for key %s: %v'', w1)
                          | Inr w2 \<Rightarrow> (Inr (), w2))))))))"

text \<open>
  \<open>transferHelper\<close> reads both balances before it writes either, and writes the
  recipient's last.
\<close>

definition transferHelper :: "string \<Rightarrow> string \<Rightarrow> go_int \<Rightarrow> world \<Rightarrow> unit result" where
  "transferHelper from to value w =
     (if value <s 0 then (Inl ''transfer amount cannot be negative'', w)
      else
       (case GetState (Plain from) w of
          None \<Rightarrow> (Inl ''client account %s has no balance'', w)
        | Some fb \<Rightarrow>
           (let fromCurrentBalance = Atoi fb in
            if fromCurrentBalance <s value
            then (Inl ''client account %s has insufficient funds'', w)
            else
             (let toCurrentBalance =
                    (case GetState (Plain to) w of None \<Rightarrow> 0 | Some tb \<Rightarrow> Atoi tb);
                  fromUpdatedBalance = fromCurrentBalance - value;
                  toUpdatedBalance = toCurrentBalance + value
              in
               (case PutState (Plain from) (IntV fromUpdatedBalance) w of
                  Inl e \<Rightarrow> (Inl e, w)
                | Inr w1 \<Rightarrow>
                   (case PutState (Plain to) (IntV toUpdatedBalance) w1 of
                      Inl e \<Rightarrow> (Inl e, w1)
                    | Inr w2 \<Rightarrow> (Inr (), w2)))))))"

definition Transfer :: "ctx \<Rightarrow> string \<Rightarrow> go_int \<Rightarrow> world \<Rightarrow> unit result" where
  "Transfer c recipient amount w =
     (case transferHelper (ClientID c) recipient amount w of
        (Inl e, w1) \<Rightarrow> (Inl ''failed to transfer: %v'', w1)
      | (Inr u, w1) \<Rightarrow> (Inr (), w1))"

text \<open>
  \<open>TransferFrom\<close> decodes the allowance without looking at whether the record exists:
  a missing allowance is the empty text, which \<open>Atoi\<close> reads as 0.
\<close>

definition TransferFrom :: "ctx \<Rightarrow> string \<Rightarrow> string \<Rightarrow> go_int \<Rightarrow> world \<Rightarrow> unit result" where
  "TransferFrom c from to value w =
     (let spender = ClientID c in
       (case CreateCompositeKey allowancePrefix [from, spender] of
          Inl e \<Rightarrow> (Inl ''failed to create the composite key for prefix %s: %v'', w)
        | Inr allowanceKey \<Rightarrow>
           (let currentAllowance =
                  (case GetState allowanceKey w of None \<Rightarrow> 0 | Some a \<Rightarrow> Atoi a)
            in
             if currentAllowance <s value
             then (Inl ''spender does not have enough allowance for transfer'', w)
             else
              (case transferHelper from to value w of
                 (Inl e, w1) \<Rightarrow> (Inl ''failed to transfer: %v'', w1)
               | (Inr u, w1) \<Rightarrow>
                  (let updatedAllowance = currentAllowance - value in
                    (case PutState allowanceKey (IntV updatedAllowance) w1 of
                       Inl e \<Rightarrow> (Inl e, w1)
                     | Inr w2 \<Rightarrow> (Inr (), w2)))))))"

definition CreateAccount :: "ctx \<Rightarrow> world \<Rightarrow> unit result" where
  "CreateAccount c w =
     (let clientID = ClientID c in
       (case GetState (Plain clientID) w of
          None \<Rightarrow>
            (case PutState (Plain clientID) (IntV 0) w of
               Inl e \<Rightarrow> (Inl e, w)
             | Inr w1 \<Rightarrow> (Inr (), w1))
        | Some balanceBytes \<Rightarrow> (Inl ''account %s already exist'', w)))"

definition Approve :: "ctx \<Rightarrow> string \<Rightarrow> go_int \<Rightarrow> world \<Rightarrow> unit result" where
  "Approve c spender value w =
     (let owner = ClientID c in
       (case CreateCompositeKey allowancePrefix [owner, spender] of
          Inl e \<Rightarrow> (Inl ''failed to create the composite key for prefix %s: %v'', w)
        | Inr allowanceKey \<Rightarrow>
           (case PutState allowanceKey (IntV value) w of
              Inl e \<Rightarrow> (Inl ''failed to update state of smart contract for key %s: %v'', w)
            | Inr w1 \<Rightarrow> (Inr (), w1))))"

section \<open>The mint and burn orders\<close>

text \<open>Deleting from a Go map; on a \<open>nil\<close> map \<open>delete\<close> does nothing.\<close>

definition map_delete :: "(string \<rightharpoonup> St_am) option \<Rightarrow> string \<Rightarrow> (string \<rightharpoonup> St_am) option" where
  "map_delete m k = (case m of None \<Rightarrow> None | Some f \<Rightarrow> Some (f(k := None)))"

definition OrderMint :: "ctx \<Rightarrow> go_int \<Rightarrow> world \<Rightarrow> unit result" where
  "OrderMint c amount w =
     (case ClientAccountBalance c w of
        (Inl e, w0) \<Rightarrow> (Inl ''account does not exist: %v'', w0)
      | (Inr bal, w0) \<Rightarrow>
         (let clientID = ClientID c in
           (case GetState (Plain MintBurnKey) w0 of
              None \<Rightarrow>
               (let table = \<lparr>sa_MintBurn = ''Mint'', sa_Amount = amount, sa_State = stateOrder\<rparr>;
                    state = Map.empty(clientID \<mapsto> table);
                    mintburn = \<lparr>mb_State = Some state\<rparr>
                in
                 (case PutState (Plain MintBurnKey) (MintBurnV mintburn) w0 of
                    Inl e \<Rightarrow> (Inl ''failed to update MintBurn: %v'', w0)
                  | Inr w1 \<Rightarrow> (Inr (), w1)))
            | Some mintburnBytes \<Rightarrow>
               (case Unmarshal_MintBurn (Some mintburnBytes) of
                  None \<Rightarrow> (Inl ''failed to get json'', w0)
                | Some mintburn \<Rightarrow>
                   (let table = \<lparr>sa_MintBurn = ''Mint'', sa_Amount = amount, sa_State = stateOrder\<rparr> in
                     (case mb_State mintburn of
                        None \<Rightarrow> (Inl ''panic: assignment to entry in nil map'', w0)
                      | Some state \<Rightarrow>
                         (case PutState (Plain MintBurnKey)
                                 (MintBurnV (mintburn\<lparr>mb_State := Some (state(clientID \<mapsto> table))\<rparr>)) w0 of
                            Inl e \<Rightarrow> (Inl ''failed to update state %v'', w0)
                          | Inr w1 \<Rightarrow> (Inr (), w1))))))))"

definition ExecuteMint :: "ctx \<Rightarrow> go_int \<Rightarrow> world \<Rightarrow> unit result" where
  "ExecuteMint c amount w =
     (case ClientAccountBalance c w of
        (Inl e, w0) \<Rightarrow> (Inl ''account does not exist: %v'', w0)
      | (Inr bal, w0) \<Rightarrow>
         (let clientID = ClientID c in
           (case Unmarshal_MintBurn (GetState (Plain MintBurnKey) w0) of
              None \<Rightarrow> (Inl ''failed to get json'', w0)
            | Some mintburn \<Rightarrow>
               (let table = map_index (mb_State mintburn) clientID in
                if sa_State table \<noteq> stateApproved \<or> sa_Amount table \<noteq> amount
                   \<or> sa_MintBurn table \<noteq> ''Mint''
                then (Inl ''mint is not approved or amount is different than amount ordered'', w0)
                else
                 (case Mint c amount w0 of
                    (Inl e, w1) \<Rightarrow> (Inl ''error minting amount'', w1)
                  | (Inr u, w1) \<Rightarrow>
                     (case PutState (Plain MintBurnKey)
                             (MintBurnV (mintburn\<lparr>mb_State := map_delete (mb_State mintburn) clientID\<rparr>))
                             w1 of
                        Inl e \<Rightarrow> (Inl ''failed to update state %v'', w1)
                      | Inr w2 \<Rightarrow> (Inr (), w2)))))))"

definition GetMintOrder :: "ctx \<Rightarrow> world \<Rightarrow> St_am result" where
  "GetMintOrder c w =
     (case ClientAccountBalance c w of
        (Inl e, w0) \<Rightarrow> (Inl ''account does not exist: %v'', w0)
      | (Inr bal, w0) \<Rightarrow>
         (let clientID = ClientID c in
           (case Unmarshal_MintBurn (GetState (Plain MintBurnKey) w0) of
              None \<Rightarrow> (Inl ''failed to get json'', w0)
            | Some mintburn \<Rightarrow>
               (let mo = map_index (mb_State mintburn) clientID in
                if sa_MintBurn mo \<noteq> ''Mint'' then (Inl ''there is no mint order'', w0)
                else (Inr mo, w0)))))"

text \<open>
  \<open>OrderBurn\<close> has the two branches of \<open>OrderMint\<close>: the first (no order table yet) writes
  the kind \<open>Burn\<close>, the second (a table exists) writes the kind \<open>Mint\<close>.
\<close>

definition OrderBurn :: "ctx \<Rightarrow> go_int \<Rightarrow> world \<Rightarrow> unit result" where
  "OrderBurn c amount w =
     (case ClientAccountBalance c w of
        (Inl e, w0) \<Rightarrow> (Inl ''account does not exist: %v'', w0)
      | (Inr bal, w0) \<Rightarrow>
         (let clientID = ClientID c in
           (case GetState (Plain MintBurnKey) w0 of
              None \<Rightarrow>
               (let table = \<lparr>sa_MintBurn = ''Burn'', sa_Amount = amount, sa_State = stateOrder\<rparr>;
                    state = Map.empty(clientID \<mapsto> table);
                    mintburn = \<lparr>mb_State = Some state\<rparr>
                in
                 (case PutState (Plain MintBurnKey) (MintBurnV mintburn) w0 of
                    Inl e \<Rightarrow> (Inl ''failed to update MintBurn: %v'', w0)
                  | Inr w1 \<Rightarrow> (Inr (), w1)))
            | Some mintburnBytes \<Rightarrow>
               (case Unmarshal_MintBurn (Some mintburnBytes) of
                  None \<Rightarrow> (Inl ''failed to get json'', w0)
                | Some mintburn \<Rightarrow>
                   (let table = \<lparr>sa_MintBurn = ''Mint'', sa_Amount = amount, sa_State = stateOrder\<rparr> in
                     (case mb_State mintburn of
                        None \<Rightarrow> (Inl ''panic: assignment to entry in nil map'', w0)
                      | Some state \<Rightarrow>
                         (case PutState (Plain MintBurnKey)
                                 (MintBurnV (mintburn\<lparr>mb_State := Some (state(clientID \<mapsto> table))\<rparr>)) w0 of
                            Inl e \<Rightarrow> (Inl ''failed to update state %v'', w0)
                          | Inr w1 \<Rightarrow> (Inr (), w1))))))))"

definition ExecuteBurn :: "ctx \<Rightarrow> go_int \<Rightarrow> world \<Rightarrow> unit result" where
  "ExecuteBurn c amount w =
     (case ClientAccountBalance c w of
        (Inl e, w0) \<Rightarrow> (Inl ''account does not exist: %v'', w0)
      | (Inr bal, w0) \<Rightarrow>
         (let clientID = ClientID c in
           (case Unmarshal_MintBurn (GetState (Plain MintBurnKey) w0) of
              None \<Rightarrow> (Inl ''failed to get json'', w0)
            | Some mintburn \<Rightarrow>
               (let table = map_index (mb_State mintburn) clientID in
                if sa_State table \<noteq> stateApproved \<or> sa_Amount table \<noteq> amount
                   \<or> sa_MintBurn table \<noteq> ''Burn''
                then (Inl ''burn is not approved or amount is different than amount ordered'', w0)
                else
                 (case Burn c amount w0 of
                    (Inl e, w1) \<Rightarrow> (Inl e, w1)
                  | (Inr u, w1) \<Rightarrow>
                     (case PutState (Plain MintBurnKey)
                             (MintBurnV (mintburn\<lparr>mb_State := map_delete (mb_State mintburn) clientID\<rparr>))
                             w1 of
                        Inl e \<Rightarrow> (Inl ''failed to update state %v'', w1)
                      | Inr w2 \<Rightarrow> (Inr (), w2)))))))"

definition GetBurnOrder :: "ctx \<Rightarrow> world \<Rightarrow> St_am result" where
  "GetBurnOrder c w =
     (case ClientAccountBalance c w of
        (Inl e, w0) \<Rightarrow> (Inl ''account does not exist: %v'', w0)
      | (Inr bal, w0) \<Rightarrow>
         (let clientID = ClientID c in
           (case Unmarshal_MintBurn (GetState (Plain MintBurnKey) w0) of
              None \<Rightarrow> (Inl ''failed to get json'', w0)
            | Some mintburn \<Rightarrow>
               (let mo = map_index (mb_State mintburn) clientID in
                if sa_MintBurn mo \<noteq> ''Burn'' then (Inl ''there is no burn order'', w0)
                else (Inr mo, w0)))))"

text \<open>
  The loop of \<open>GetMintOrders\<close> and \<open>GetBurnOrders\<close> visits every entry of the decoded map
  once and deletes it from that map unless it has the wanted kind and is in state
  \<open>Ordered\<close>; the outcome does not depend on the order of the visits. Ranging over a
  \<open>nil\<close> map does nothing.
\<close>

definition range_delete :: "string \<Rightarrow> (string \<rightharpoonup> St_am) option \<Rightarrow> (string \<rightharpoonup> St_am) option" where
  "range_delete kind mo =
     (case mo of
        None \<Rightarrow> None
      | Some f \<Rightarrow>
          Some (\<lambda>key. case f key of
                  None \<Rightarrow> None
                | Some value \<Rightarrow>
                    if sa_MintBurn value \<noteq> kind then None
                    else if sa_State value \<noteq> stateOrder then None
                    else Some value))"

definition GetMintOrders :: "ctx \<Rightarrow> world \<Rightarrow> ((string \<rightharpoonup> St_am) option) result" where
  "GetMintOrders c w =
     (if MSPID c \<noteq> ''Org1MSP'' then (Inl ''client is not authorized to get mint orders'', w)
      else
       (case Unmarshal_MintBurn (GetState (Plain MintBurnKey) w) of
          None \<Rightarrow> (Inl ''there are no Mint Orders'', w)
        | Some mintburn \<Rightarrow> (Inr (range_delete ''Mint'' (mb_State mintburn)), w)))"

definition GetBurnOrders :: "ctx \<Rightarrow> world \<Rightarrow> ((string \<rightharpoonup> St_am) option) result" where
  "GetBurnOrders c w =
     (if MSPID c \<noteq> ''Org1MSP'' then (Inl ''client is not authorized to get burn orders'', w)
      else
       (case Unmarshal_MintBurn (GetState (Plain MintBurnKey) w) of
          None \<Rightarrow> (Inl ''there are no Burn Orders'', w)
        | Some mintburn \<Rightarrow> (Inr (range_delete ''Burn'' (mb_State mintburn)), w)))"

definition ApproveMint :: "ctx \<Rightarrow> string \<Rightarrow> world \<Rightarrow> unit result" where
  "ApproveMint c mint_acc w =
     (if MSPID c \<noteq> ''Org1MSP'' then (Inl ''client is not authorized to get burn orders'', w)
      else
       (case Unmarshal_MintBurn (GetState (Plain MintBurnKey) w) of
          None \<Rightarrow> (Inl ''there are no Burn Orders'', w)
        | Some mintburn \<Rightarrow>
           (let mo = map_index (mb_State mintburn) mint_acc in
            if sa_MintBurn mo \<noteq> ''Mint'' then (Inl ''there are no Mint Orders'', w)
            else if sa_State mo \<noteq> stateOrder then (Inl ''mint is not in order stage'', w)
            else
             (case mb_State mintburn of
                None \<Rightarrow> (Inl ''panic: assignment to entry in nil map'', w)
              | Some state \<Rightarrow>
                 (case PutState (Plain MintBurnKey)
                         (MintBurnV (mintburn\<lparr>mb_State :=
                            Some (state(mint_acc \<mapsto> mo\<lparr>sa_State := stateApproved\<rparr>))\<rparr>)) w of
                    Inl e \<Rightarrow> (Inl ''failed to update state %v'', w)
                  | Inr w1 \<Rightarrow> (Inr (), w1))))))"

definition ApproveBurn :: "ctx \<Rightarrow> string \<Rightarrow> world \<Rightarrow> unit result" where
  "ApproveBurn c burn_acc w =
     (if MSPID c \<noteq> ''Org1MSP'' then (Inl ''client is not authorized to get burn orders'', w)
      else
       (case Unmarshal_MintBurn (GetState (Plain MintBurnKey) w) of
          None \<Rightarrow> (Inl ''there are no Burn Orders'', w)
        | Some mintburn \<Rightarrow>
           (let mo = map_index (mb_State mintburn) burn_acc in
            if sa_MintBurn mo \<noteq> ''Burn'' then (Inl ''there are no Burn Orders'', w)
            else if sa_State mo \<noteq> stateOrder then (Inl ''mint is not in order stage'', w)
            else
             (case mb_State mintburn of
                None \<Rightarrow> (Inl ''panic: assignment to entry in nil map'', w)
              | Some state \<Rightarrow>
                 (case PutState (Plain MintBurnKey)
                         (MintBurnV (mintburn\<lparr>mb_State :=
                            Some (state(burn_acc \<mapsto> mo\<lparr>sa_State := stateApproved\<rparr>))\<rparr>)) w of
                    Inl e \<Rightarrow> (Inl ''failed to update state %v'', w)
                  | Inr w1 \<Rightarrow> (Inr (), w1))))))"

section \<open>The auction\<close>

text \<open>
  \<open>json.Unmarshal\<close> into an \<open>Auction\<close>: a number is an error; the JSON object of the
  order table has no member of an auction, which leaves every field at its zero value
  (the zero \<open>time.Time\<close> is the first instant of year 1).
\<close>

definition zero_Auction :: Auction where
  "zero_Auction =
     \<lparr>Type = [], ItemSold = [], Amount = 0, PricePerKWh = 0,
      Time_started = - 62135596800000000000, Time_remaining = 0, Seller = [], Orgs = [],
      PrivateBids = [], RevealedBids = [], Winner = [], Price = 0, Status = []\<rparr>"

primrec Unmarshal_Auction :: "val \<Rightarrow> Auction option" where
  "Unmarshal_Auction (IntV n) = None"
| "Unmarshal_Auction (MintBurnV m) = Some zero_Auction"
| "Unmarshal_Auction (AuctionV a) = Some a"

text \<open>
  \<open>int(time.Since(t).Minutes())\<close>: the whole minutes between \<open>t\<close> and the peer's clock,
  rounded towards zero.
\<close>

definition Minutes_since :: "ctx \<Rightarrow> int \<Rightarrow> int" where
  "Minutes_since c t =
     (let d = Now c - t in
      if 0 \<le> d then d div 60000000000 else - ((- d) div 60000000000))"

text \<open>
  Modelled from the spec: \<open>contains\<close> is not in the sources; a bidder's organisation is
  added to the auction's organisations ``if new'', that is, if the list does not hold it.
\<close>

definition contains :: "string list \<Rightarrow> string \<Rightarrow> bool" where
  "contains orgs org = (org \<in> set orgs)"

definition CreateAuction :: "ctx \<Rightarrow> string \<Rightarrow> go_int \<Rightarrow> go_int \<Rightarrow> go_int \<Rightarrow> world \<Rightarrow> unit result" where
  "CreateAuction c auctionID priceperkwh amount time_rem w =
     (let clientID = ClientID c;
          clientOrgID = MSPID c;
          auction =
            \<lparr>Type = ''auction'', ItemSold = ''energy(KWh)'', Amount = amount,
             PricePerKWh = priceperkwh, Time_started = TxTimestamp c,
             Time_remaining = time_rem, Seller = clientID, Orgs = [clientOrgID],
             PrivateBids = [], RevealedBids = [], Winner = [],
             Price = amount * priceperkwh, Status = ''open''\<rparr>
      in
       (case PutState (Plain auctionID) (AuctionV auction) w of
          Inl e \<Rightarrow> (Inl ''failed to put auction in public data: %v'', w)
        | Inr w1 \<Rightarrow>
            if setEndorsement_ok c auctionID clientOrgID then (Inr (), w1)
            else (Inl ''failed setting state based endorsement for new organization: %v'', w1)))"

text \<open>The close that the seller calls (a method of the contract).\<close>

definition SmartContract_CloseAuction :: "ctx \<Rightarrow> string \<Rightarrow> world \<Rightarrow> unit result" where
  "SmartContract_CloseAuction c auctionID w =
     (case GetState (Plain auctionID) w of
        None \<Rightarrow> (Inl ''Auction interest object %v not found'', w)
      | Some auctionBytes \<Rightarrow>
         (case Unmarshal_Auction auctionBytes of
            None \<Rightarrow> (Inl ''failed to create auction object JSON: %v'', w)
          | Some auctionJSON \<Rightarrow>
              if Seller auctionJSON \<noteq> ClientID c
              then (Inl ''auction can only be closed by seller: %v'', w)
              else if Status auctionJSON \<noteq> ''open''
              then (Inl ''cannot close auction that is not open'', w)
              else
               (case PutState (Plain auctionID) (AuctionV (auctionJSON\<lparr>Status := ''closed''\<rparr>)) w of
                  Inl e \<Rightarrow> (Inl ''failed to close auction: %v'', w)
                | Inr w1 \<Rightarrow> (Inr (), w1))))"

text \<open>
  The close that \<open>Bid_Rev\<close> and \<open>CheckAuction\<close> call when the time is up (a function of
  the package, with the same name and the same body as the method).
\<close>

definition CloseAuction :: "ctx \<Rightarrow> string \<Rightarrow> world \<Rightarrow> unit result" where
  "CloseAuction c auctionID w =
     (case GetState (Plain auctionID) w of
        None \<Rightarrow> (Inl ''Auction interest object %v not found'', w)
      | Some auctionBytes \<Rightarrow>
         (case Unmarshal_Auction auctionBytes of
            None \<Rightarrow> (Inl ''failed to create auction object JSON: %v'', w)
          | Some auctionJSON \<Rightarrow>
              if Seller auctionJSON \<noteq> ClientID c
              then (Inl ''auction can only be closed by seller: %v'', w)
              else if Status auctionJSON \<noteq> ''open''
              then (Inl ''cannot close auction that is not open'', w)
              else
               (case PutState (Plain auctionID) (AuctionV (auctionJSON\<lparr>Status := ''closed''\<rparr>)) w of
                  Inl e \<Rightarrow> (Inl ''failed to close auction: %v'', w)
                | Inr w1 \<Rightarrow> (Inr (), w1))))"

text \<open>
  The loop of \<open>EndAuction\<close> over the revealed bids: a bid whose price exceeds the price
  recorded so far becomes the winner and sets the price.
\<close>

primrec highest_bid :: "(key \<times> FullBid) list \<Rightarrow> Auction \<Rightarrow> Auction" where
  "highest_bid [] auctionJSON = auctionJSON"
| "highest_bid (entry # bids) auctionJSON =
     (let bid = snd entry in
      highest_bid bids
        (if Price auctionJSON <s bid_Price bid
         then auctionJSON\<lparr>Winner := bid_Bidder bid, Price := bid_Price bid\<rparr>
         else auctionJSON))"

definition SmartContract_EndAuction :: "ctx \<Rightarrow> string \<Rightarrow> world \<Rightarrow> unit result" where
  "SmartContract_EndAuction c auctionID w =
     (case GetState (Plain auctionID) w of
        None \<Rightarrow> (Inl ''Auction interest object %v not found'', w)
      | Some auctionBytes \<Rightarrow>
         (case Unmarshal_Auction auctionBytes of
            None \<Rightarrow> (Inl ''failed to create auction object JSON: %v'', w)
          | Some auctionJSON \<Rightarrow>
              if Seller auctionJSON \<noteq> ClientID c
              then (Inl ''auction can only be ended by seller: %v'', w)
              else if Status auctionJSON \<noteq> ''closed''
              then (Inl ''can only end a closed auction'', w)
              else if length (RevealedBids auctionJSON) = 0
              then (Inl ''no bids have been revealed, cannot end auction: %v'', w)
              else
               (let auctionJSON1 = highest_bid (RevealedBids auctionJSON) auctionJSON in
                if \<not> queryAllBids_ok c (Price auctionJSON1) (RevealedBids auctionJSON1)
                       (PrivateBids auctionJSON1)
                then (Inl ''cannot close auction: %v'', w)
                else
                 (case PutState (Plain auctionID) (AuctionV (auctionJSON1\<lparr>Status := ''ended''\<rparr>)) w of
                    Inl e \<Rightarrow> (Inl ''failed to end auction: %v'', w)
                  | Inr w1 \<Rightarrow>
                     (case DelState (Plain auctionID) w1 of
                        Inl e \<Rightarrow> (Inl ''failed to delete auction: %v'', w1)
                      | Inr w2 \<Rightarrow> (Inr (), w2))))))"

definition EndAuction :: "ctx \<Rightarrow> string \<Rightarrow> world \<Rightarrow> unit result" where
  "EndAuction c auctionID w =
     (case GetState (Plain auctionID) w of
        None \<Rightarrow> (Inl ''Auction interest object %v not found'', w)
      | Some auctionBytes \<Rightarrow>
         (case Unmarshal_Auction auctionBytes of
            None \<Rightarrow> (Inl ''failed to create auction object JSON: %v'', w)
          | Some auctionJSON \<Rightarrow>
              if Seller auctionJSON \<noteq> ClientID c
              then (Inl ''auction can only be ended by seller: %v'', w)
              else if Status auctionJSON \<noteq> ''closed''
              then (Inl ''can only end a closed auction'', w)
              else if length (RevealedBids auctionJSON) = 0
              then (Inl ''no bids have been revealed, cannot end auction: %v'', w)
              else
               (let auctionJSON1 = highest_bid (RevealedBids auctionJSON) auctionJSON in
                if \<not> queryAllBids_ok c (Price auctionJSON1) (RevealedBids auctionJSON1)
                       (PrivateBids auctionJSON1)
                then (Inl ''cannot close auction: %v'', w)
                else
                 (case PutState (Plain auctionID) (AuctionV (auctionJSON1\<lparr>Status := ''ended''\<rparr>)) w of
                    Inl e \<Rightarrow> (Inl ''failed to close auction: %v'', w)
                  | Inr w1 \<Rightarrow>
                     (case DelState (Plain auctionID) w1 of
                        Inl e \<Rightarrow> (Inl ''failed to delete auction: %v'', w1)
                      | Inr w2 \<Rightarrow> (Inr (), w2))))))"

text \<open>
  \<open>Bid_Rev\<close> stores the bid in the auction's map of revealed bids under the composite key
  of the object type \<open>bid\<close> and the auction id. Storing under a key of a Go map replaces
  the entry the key has.
\<close>

definition Bid_Rev :: "ctx \<Rightarrow> string \<Rightarrow> go_int \<Rightarrow> world \<Rightarrow> unit result" where
  "Bid_Rev c auctionID amount w =
     (let clientID = ClientID c;
          clientOrgID = MSPID c
      in
       (case GetState (Plain auctionID) w of
          None \<Rightarrow> (Inl ''Auction not found: %v'', w)
        | Some auctionBytes \<Rightarrow>
           (case Unmarshal_Auction auctionBytes of
              None \<Rightarrow> (Inl ''failed to create auction object JSON: %v'', w)
            | Some auctionJSON \<Rightarrow>
                if Status auctionJSON \<noteq> ''open''
                then (Inl ''cannot join closed or ended auction'', w)
                else if sint (Time_remaining auctionJSON) \<le> Minutes_since c (Time_started auctionJSON)
                then
                 (case CloseAuction c auctionID w of
                    (r1, w1) \<Rightarrow>
                     (case EndAuction c auctionID w1 of
                        (r2, w2) \<Rightarrow> (Inl ''time is up'', w2)))
                else
                 (case ClientAccountBalance c w of
                    (Inl e, w0) \<Rightarrow> (Inl ''cannot get balance'', w0)
                  | (Inr balance, w0) \<Rightarrow>
                      if balance <s amount then (Inl ''balance is less than amount'', w0)
                      else
                       (case CreateCompositeKey bidKeyType [auctionID] of
                          Inl e \<Rightarrow> (Inl ''failed to create composite key: %v'', w0)
                        | Inr bidKey \<Rightarrow>
                           (let NewBid =
                                  \<lparr>bid_Type = ItemSold auctionJSON, bid_Price = amount,
                                   bid_Org = clientOrgID, bid_Bidder = clientID\<rparr>;
                                bidders = AList.update bidKey NewBid (RevealedBids auctionJSON);
                                auctionJSON1 = auctionJSON\<lparr>RevealedBids := bidders\<rparr>;
                                Orgs0 = Orgs auctionJSON1
                            in
                             if \<not> contains Orgs0 clientOrgID \<and> \<not> addEndorsement_ok c auctionID clientOrgID
                             then (Inl ''failed setting state based endorsement for new organization: %v'', w0)
                             else
                              (let auctionJSON2 =
                                     (if \<not> contains Orgs0 clientOrgID
                                      then auctionJSON1\<lparr>Orgs := Orgs0 @ [clientOrgID]\<rparr>
                                      else auctionJSON1)
                               in
                                (case PutState (Plain auctionID) (AuctionV auctionJSON2) w0 of
                                   Inl e \<Rightarrow> (Inl ''failed to update auction: %v'', w0)
                                 | Inr w1 \<Rightarrow>
                                    (case CreateHold c amount w1 of
                                       (Inl e, w2) \<Rightarrow> (Inl ''cannot create hold: %v'', w2)
                                     | (Inr u, w2) \<Rightarrow> (Inr (), w2))))))))))"

definition CheckAuction :: "ctx \<Rightarrow> string \<Rightarrow> world \<Rightarrow> Auction result" where
  "CheckAuction c auctionID w =
     (if MSPID c \<noteq> ''Org1MSP'' then (Inl ''client is not authorized to check auctions'', w)
      else
       (case GetState (Plain auctionID) w of
          None \<Rightarrow> (Inl ''Auction not found: %v'', w)
        | Some auctionBytes \<Rightarrow>
           (case Unmarshal_Auction auctionBytes of
              None \<Rightarrow> (Inl ''failed to create auction object JSON: %v'', w)
            | Some auctionJSON \<Rightarrow>
                if Status auctionJSON \<noteq> ''open''
                then (Inl ''auction closed or ended auction'', w)
                else if sint (Time_remaining auctionJSON) \<le> Minutes_since c (Time_started auctionJSON)
                then
                 (case CloseAuction c auctionID w of
                    (r1, w1) \<Rightarrow>
                     (case EndAuction c auctionID w1 of
                        (r2, w2) \<Rightarrow> (Inl ''auction closed and ended'', w2)))
                else (Inr auctionJSON, w))))"

section \<open>Reading the world state\<close>

text \<open>
  What the claims speak about, read off a world state: the balance stored for a client,
  the total supply as \<open>TotalSupply\<close> reports it, and the order entry stored for a client.
\<close>

definition balance_of :: "string \<Rightarrow> world \<Rightarrow> go_int option" where
  "balance_of clientID w = map_option Atoi (kv w (Plain clientID))"

definition hold_of :: "string \<Rightarrow> world \<Rightarrow> go_int option" where
  "hold_of clientID w = map_option Atoi (kv w (Composite holdPrefix [clientID]))"

definition supply_of :: "world \<Rightarrow> go_int" where
  "supply_of w = (case kv w (Plain totalSupplyKey) of None \<Rightarrow> 0 | Some t \<Rightarrow> Atoi t)"

definition order_of :: "string \<Rightarrow> world \<Rightarrow> St_am option" where
  "order_of clientID w =
     (case Unmarshal_MintBurn (kv w (Plain MintBurnKey)) of
        None \<Rightarrow> None
      | Some mintburn \<Rightarrow>
          (case mb_State mintburn of None \<Rightarrow> None | Some state \<Rightarrow> state clientID))"

text \<open>The sum of the balances of a set of accounts (accounts without a record count 0).\<close>

definition account_sum :: "string set \<Rightarrow> world \<Rightarrow> go_int" where
  "account_sum A w = (\<Sum>p\<in>A. case balance_of p w of None \<Rightarrow> 0 | Some b \<Rightarrow> b)"

definition approved :: "string \<Rightarrow> go_int \<Rightarrow> St_am" where
  "approved kind amount = \<lparr>sa_MintBurn = kind, sa_Amount = amount, sa_State = stateApproved\<rparr>"

section \<open>Example states\<close>

definition client :: "string \<Rightarrow> string \<Rightarrow> ctx" where
  "client i org =
     \<lparr>ClientID = i, MSPID = org, TxTimestamp = 0, Now = 0,
      setEndorsement_ok = (\<lambda>a b. True), addEndorsement_ok = (\<lambda>a b. True),
      queryAllBids_ok = (\<lambda>p r q. True)\<rparr>"

definition w_of :: "(key \<times> val) list \<Rightarrow> world" where
  "w_of xs = \<lparr>kv = map_of xs, journal = []\<rparr>"

text \<open>Alice holds 10 tokens, all there are.\<close>

definition w_alice :: world where
  "w_alice = w_of [(Plain ''alice'', IntV 10), (Plain totalSupplyKey, IntV 10)]"

text \<open>Alice holds the one token there is.\<close>

definition w_one :: world where
  "w_one = w_of [(Plain ''alice'', IntV 1), (Plain totalSupplyKey, IntV 1)]"

text \<open>
  Alice transfers her whole balance to herself, \<open>n\<close> times in a row (\<open>None\<close> if one
  of the transfers fails).
\<close>

primrec transfer_all_to_self :: "nat \<Rightarrow> world \<Rightarrow> world option" where
  "transfer_all_to_self 0 w = Some w"
| "transfer_all_to_self (Suc n) w =
     (case transfer_all_to_self n w of
        None \<Rightarrow> None
      | Some w1 \<Rightarrow>
          (case balance_of ''alice'' w1 of
             None \<Rightarrow> None
           | Some b \<Rightarrow>
               (case Transfer (client ''alice'' ''Org2MSP'') ''alice'' b w1 of
                  (Inl e, w2) \<Rightarrow> None
                | (Inr u, w2) \<Rightarrow> Some w2)))"

text \<open>Alice holds \<open>2 ^ 62\<close> tokens.\<close>

definition w_rich :: world where
  "w_rich = w_of [(Plain ''alice'', IntV 4611686018427387904),
                  (Plain totalSupplyKey, IntV 4611686018427387904)]"

text \<open>Alice has a balance of 10 and 5 on hold; Bob has a balance of 1.\<close>

definition w_hold :: world where
  "w_hold = w_of [(Plain ''alice'', IntV 10), (Composite holdPrefix [''alice''], IntV 5),
                  (Plain ''bob'', IntV 1)]"

text \<open>Alice has a balance of 10 and nothing on hold.\<close>

definition w_nohold :: world where
  "w_nohold = w_of [(Plain ''alice'', IntV 10)]"

text \<open>
  Alice has a balance of 7 and an approved order to mint 5; Bob has a balance of 9 and an
  approved order to burn 4; the total supply is 20.
\<close>

definition w_orders :: world where
  "w_orders = w_of [(Plain ''alice'', IntV 7), (Plain ''bob'', IntV 9),
      (Plain totalSupplyKey, IntV 20),
      (Plain MintBurnKey,
       MintBurnV \<lparr>mb_State = Some [''alice'' \<mapsto> approved ''Mint'' 5,
                                    ''bob'' \<mapsto> approved ''Burn'' 4]\<rparr>)]"

text \<open>Alice has an account, and the order table exists and is empty.\<close>

definition w_table :: world where
  "w_table = w_of [(Plain ''alice'', IntV 10),
      (Plain MintBurnKey, MintBurnV \<lparr>mb_State = Some Map.empty\<rparr>)]"

text \<open>Alice and Bob have accounts of 100 each; there is no auction yet.\<close>

definition w_bidders :: world where
  "w_bidders = w_of [(Plain ''alice'', IntV 100), (Plain ''bob'', IntV 100)]"

definition bid_of :: "string \<Rightarrow> go_int \<Rightarrow> FullBid" where
  "bid_of bidder price =
     \<lparr>bid_Type = ''energy(KWh)'', bid_Price = price, bid_Org = ''Org2MSP'', bid_Bidder = bidder\<rparr>"

text \<open>An auction of 10 KWh at 5 each, as \<open>CreateAuction\<close> writes it, with a status and bids.\<close>

definition auction_of :: "string \<Rightarrow> (key \<times> FullBid) list \<Rightarrow> Auction" where
  "auction_of status bids =
     \<lparr>Type = ''auction'', ItemSold = ''energy(KWh)'', Amount = 10, PricePerKWh = 5,
      Time_started = 0, Time_remaining = 60, Seller = ''seller'',
      Orgs = [''Org1MSP'', ''Org2MSP''], PrivateBids = [], RevealedBids = bids,
      Winner = [], Price = 50, Status = status\<rparr>"

definition three_bids :: "(key \<times> FullBid) list" where
  "three_bids =
     [(Composite ''bid'' [''a1'', ''1''], bid_of ''alice'' 60),
      (Composite ''bid'' [''a1'', ''2''], bid_of ''bob'' 80),
      (Composite ''bid'' [''a1'', ''3''], bid_of ''carol'' 80)]"

definition low_bids :: "(key \<times> FullBid) list" where
  "low_bids =
     [(Composite ''bid'' [''a1'', ''1''], bid_of ''alice'' 40),
      (Composite ''bid'' [''a1'', ''2''], bid_of ''bob'' 50)]"

definition w_closed :: world where
  "w_closed = w_of [(Plain ''a1'', AuctionV (auction_of ''closed'' three_bids))]"

definition w_closed_low :: world where
  "w_closed_low = w_of [(Plain ''a1'', AuctionV (auction_of ''closed'' low_bids))]"

definition w_open :: world where
  "w_open = w_of [(Plain ''a1'', AuctionV (auction_of ''open'' []))]"

section \<open>Facts used throughout\<close>

lemmas stub_defs = GetState_def PutState_def DelState_def CreateCompositeKey_def

lemmas const_defs = totalSupplyKey_def allowancePrefix_def holdPrefix_def MintBurnKey_def
  stateOrder_def stateApproved_def stateRejected_def bidKeyType_def

lemmas signed_cmp = word_sless_alt word_sle_eq

lemmas read_defs = balance_of_def hold_of_def supply_of_def order_of_def

text \<open>
  Subtracting an amount between 0 and the balance does not wrap around.
\<close>

lemma sint_diff_nonneg:
  fixes b v :: go_int
  assumes "0 \<le> sint v" and "sint v \<le> sint b"
  shows "sint (b - v) = sint b - sint v"
proof -
  have "sint b < 2 ^ 63" using sint_lt [of b] by simp
  with assms have "- (2 ^ 63) \<le> sint b - sint v" "sint b - sint v < 2 ^ 63" by simp_all
  then have "signed_take_bit 63 (sint b - sint v) = sint b - sint v"
    by (simp add: signed_take_bit_int_eq_self)
  then show ?thesis by (simp add: sint_word_ariths)
qed

section \<open>Mint, burn and transfer\<close>

lemma Mint_effect:
  assumes "Mint c amount w = (Inr (), w')" and "ClientID c \<noteq> totalSupplyKey"
  shows "0 <s amount
       \<and> balance_of (ClientID c) w' =
           Some ((case balance_of (ClientID c) w of None \<Rightarrow> 0 | Some b \<Rightarrow> b) + amount)
       \<and> supply_of w' = supply_of w + amount
       \<and> kv w' (Plain totalSupplyKey) \<noteq> None
       \<and> (\<forall>k. k \<noteq> Plain (ClientID c) \<longrightarrow> k \<noteq> Plain totalSupplyKey \<longrightarrow> kv w' k = kv w k)"
  using assms
  by (auto simp: Mint_def stub_defs Let_def balance_of_def supply_of_def signed_cmp
           split: if_splits option.splits sum.splits)

lemma Burn_effect:
  assumes "Burn c amount w = (Inr (), w')" and "ClientID c \<noteq> totalSupplyKey"
  shows "0 <s amount \<and> MSPID c = ''Org1MSP''
       \<and> (\<exists>b. balance_of (ClientID c) w = Some b \<and> balance_of (ClientID c) w' = Some (b - amount))
       \<and> kv w (Plain totalSupplyKey) \<noteq> None
       \<and> supply_of w' = supply_of w - amount
       \<and> (\<forall>k. k \<noteq> Plain (ClientID c) \<longrightarrow> k \<noteq> Plain totalSupplyKey \<longrightarrow> kv w' k = kv w k)"
  using assms
  by (auto simp: Burn_def stub_defs Let_def balance_of_def supply_of_def signed_cmp
           split: if_splits option.splits sum.splits)

text \<open>
  A transfer between two different accounts moves the amount: the sender keeps a balance
  that is not negative, and no other record changes.
\<close>

lemma transferHelper_distinct:
  assumes "transferHelper from to value w = (Inr (), w')" and "from \<noteq> to"
  shows "\<exists>b. balance_of from w = Some b \<and> 0 \<le>s value \<and> value \<le>s b
           \<and> balance_of from w' = Some (b - value) \<and> 0 \<le>s b - value
           \<and> balance_of to w' = Some ((case balance_of to w of None \<Rightarrow> 0 | Some t \<Rightarrow> t) + value)
           \<and> (\<forall>k. k \<noteq> Plain from \<longrightarrow> k \<noteq> Plain to \<longrightarrow> kv w' k = kv w k)"
  using assms
  by (auto simp: transferHelper_def stub_defs Let_def balance_of_def signed_cmp sint_diff_nonneg
           split: if_splits option.splits sum.splits)

text \<open>
  So a transfer between two different accounts keeps the sum of the balances of every
  finite set of accounts that holds both.
\<close>

lemma transferHelper_distinct_sum:
  assumes "transferHelper from to value w = (Inr (), w')" and "from \<noteq> to"
    and "finite A" and "from \<in> A" and "to \<in> A"
  shows "account_sum A w' = account_sum A w"
proof -
  let ?f = "\<lambda>w p. case balance_of p w of None \<Rightarrow> (0::go_int) | Some b \<Rightarrow> b"
  from transferHelper_distinct [OF assms(1,2)] obtain b where
    fb: "balance_of from w = Some b" "balance_of from w' = Some (b - value)"
    and tb: "balance_of to w' = Some (?f w to + value)"
    and rest: "\<forall>k. k \<noteq> Plain from \<longrightarrow> k \<noteq> Plain to \<longrightarrow> kv w' k = kv w k"
    by blast
  have other: "?f w' p = ?f w p" if "p \<in> A - {from} - {to}" for p
    using rest that by (simp add: balance_of_def)
  have fin: "finite (A - {from})" using assms(3) by simp
  have tin: "to \<in> A - {from}" using assms(2,5) by simp
  have "sum (?f w') A = ?f w' from + sum (?f w') (A - {from})"
    using assms(3,4) by (rule sum.remove)
  also have "sum (?f w') (A - {from}) = ?f w' to + sum (?f w') (A - {from} - {to})"
    using fin tin by (rule sum.remove)
  also have "sum (?f w') (A - {from} - {to}) = sum (?f w) (A - {from} - {to})"
    using other by (intro sum.cong) simp_all
  finally have 1: "sum (?f w') A = (b - value) + ((?f w to + value) + sum (?f w) (A - {from} - {to}))"
    using fb tb by simp
  have "sum (?f w) A = ?f w from + sum (?f w) (A - {from})"
    using assms(3,4) by (rule sum.remove)
  also have "sum (?f w) (A - {from}) = ?f w to + sum (?f w) (A - {from} - {to})"
    using fin tin by (rule sum.remove)
  finally have 2: "sum (?f w) A = b + (?f w to + sum (?f w) (A - {from} - {to}))"
    using fb by simp
  show ?thesis unfolding account_sum_def 1 2 by simp
qed

text \<open>
  A transfer to the sender's own account: both balances are read before either is
  written and the recipient's is written last, so the account ends with its balance plus
  the amount.
\<close>

lemma transferHelper_self:
  assumes "transferHelper p p value w = (Inr (), w')"
  shows "\<exists>b. balance_of p w = Some b \<and> balance_of p w' = Some (b + value)
           \<and> (\<forall>k. k \<noteq> Plain p \<longrightarrow> kv w' k = kv w k)"
  using assms
  by (auto simp: transferHelper_def stub_defs Let_def balance_of_def
           split: if_splits option.splits sum.splits)

text \<open>Whoever transfers a whole balance that is not negative to themselves doubles it.\<close>

lemma Transfer_self_doubles:
  assumes "kv w (Plain p) = Some (IntV b)" and "0 \<le>s b" and "p \<noteq> []" and "ClientID c = p"
  shows "\<exists>w'. Transfer c p b w = (Inr (), w') \<and> kv w' (Plain p) = Some (IntV (b + b))"
  using assms
  by (simp add: Transfer_def transferHelper_def stub_defs Let_def signed_cmp)

text \<open>
  Starting with one token, Alice reaches a negative balance by 63 such transfers, each of
  them successful.
\<close>

lemma transfer_all_to_self_negative:
  "map_option (balance_of ''alice'') (transfer_all_to_self 63 w_one)
     = Some (Some (- 9223372036854775808))"
  by code_simp

text \<open>A transfer of more than the sender has fails and writes nothing.\<close>

lemma transferHelper_insufficient:
  assumes "kv w (Plain from) = Some fb" and "Atoi fb <s value"
  shows "\<exists>e. transferHelper from to value w = (Inl e, w)"
  using assms by (simp add: transferHelper_def GetState_def Let_def)

lemma Transfer_insufficient:
  assumes "kv w (Plain (ClientID c)) = Some fb" and "Atoi fb <s value"
  shows "\<exists>e. Transfer c to value w = (Inl e, w)"
  using transferHelper_insufficient [OF assms, of to] by (auto simp: Transfer_def)

lemma TransferFrom_insufficient:
  assumes "kv w (Plain from) = Some fb" and "Atoi fb <s value"
  shows "\<exists>e. TransferFrom c from to value w = (Inl e, w)"
  using transferHelper_insufficient [OF assms, of to]
  by (auto simp: TransferFrom_def Let_def split: sum.splits)

text \<open>
  Claim C1 (supply conservation: every successful \<open>Transfer\<close> leaves the total supply and
  the sum of all account balances unchanged). The code breaks it where the recipient is
  the sender: Alice, who holds all 10 tokens there are, transfers 10 to herself; the
  call succeeds, her balance is 20 and the total supply is still 10.
\<close>

theorem Transfer_to_self_mints:
  "fst (Transfer (client ''alice'' ''Org2MSP'') ''alice'' 10 w_alice) = Inr ()
   \<and> balance_of ''alice'' w_alice = Some 10
   \<and> supply_of w_alice = 10
   \<and> balance_of ''alice'' (snd (Transfer (client ''alice'' ''Org2MSP'') ''alice'' 10 w_alice)) = Some 20
   \<and> supply_of (snd (Transfer (client ''alice'' ''Org2MSP'') ''alice'' 10 w_alice)) = 10"
  by (simp add: Transfer_def transferHelper_def stub_defs const_defs client_def w_of_def
        w_alice_def read_defs
        Let_def signed_cmp)

text \<open>
  Claim C3 (a transfer of more than the balance fails and changes nothing; no successful
  transfer leaves the sender's balance below zero). The first half holds
  (\<open>Transfer_insufficient\<close>, \<open>TransferFrom_insufficient\<close>), and so does the second for two
  different accounts (\<open>transferHelper_distinct\<close>). The code breaks the second half where
  the recipient is the sender: Alice holds \<open>2 ^ 62\<close> tokens and transfers \<open>2 ^ 62\<close> to
  herself; the call succeeds and the sum wraps around to \<open>- 2 ^ 63\<close>.
\<close>

theorem Transfer_to_self_negative:
  "fst (Transfer (client ''alice'' ''Org2MSP'') ''alice'' 4611686018427387904 w_rich) = Inr ()
   \<and> balance_of ''alice'' w_rich = Some 4611686018427387904
   \<and> balance_of ''alice''
        (snd (Transfer (client ''alice'' ''Org2MSP'') ''alice'' 4611686018427387904 w_rich))
       = Some (- 9223372036854775808)
   \<and> (- 9223372036854775808 :: go_int) <s 0"
  by (simp add: Transfer_def transferHelper_def stub_defs const_defs client_def w_of_def
        w_rich_def read_defs
        Let_def signed_cmp)

section \<open>Holds\<close>

text \<open>
  Claim C2, as amended: for every successful \<open>ExecuteHold(holder, amount)\<close> by a caller
  other than the holder, the holder had a hold \<open>h\<close> with \<open>amount \<le> h\<close> and both had a
  balance; afterwards the caller's balance is up by \<open>amount\<close>, the holder's balance is up
  by \<open>h - amount\<close>, and the holder's hold record holds \<open>h\<close> again.
\<close>

theorem ExecuteHold_effect:
  assumes "ExecuteHold c holder amount w = (Inr (), w')" and "ClientID c \<noteq> holder"
  shows "\<exists>h bc bh. hold_of holder w = Some h \<and> amount \<le>s h
           \<and> balance_of (ClientID c) w = Some bc \<and> balance_of holder w = Some bh
           \<and> balance_of (ClientID c) w' = Some (bc + amount)
           \<and> balance_of holder w' = Some (bh + (h - amount))
           \<and> hold_of holder w' = Some h"
  using assms
  by (auto simp: ExecuteHold_def stub_defs Let_def read_defs signed_cmp
           split: if_splits option.splits sum.splits)

text \<open>
  Bob executes 3 of Alice's hold of 5: Bob's balance goes from 1 to 4, Alice's from 10
  to 12, and her hold record still says 5.
\<close>

theorem ExecuteHold_effect_witness:
  "fst (ExecuteHold (client ''bob'' ''Org2MSP'') ''alice'' 3 w_hold) = Inr ()
   \<and> balance_of ''bob'' (snd (ExecuteHold (client ''bob'' ''Org2MSP'') ''alice'' 3 w_hold)) = Some 4
   \<and> balance_of ''alice'' (snd (ExecuteHold (client ''bob'' ''Org2MSP'') ''alice'' 3 w_hold)) = Some 12
   \<and> hold_of ''alice'' (snd (ExecuteHold (client ''bob'' ''Org2MSP'') ''alice'' 3 w_hold)) = Some 5"
proof -
  have ok: "fst (ExecuteHold (client ''bob'' ''Org2MSP'') ''alice'' 3 w_hold) = Inr ()"
    by (simp add: ExecuteHold_def stub_defs const_defs client_def w_of_def w_hold_def Let_def
          signed_cmp)
  then have run: "ExecuteHold (client ''bob'' ''Org2MSP'') ''alice'' 3 w_hold
                    = (Inr (), snd (ExecuteHold (client ''bob'' ''Org2MSP'') ''alice'' 3 w_hold))"
    by (simp add: prod_eq_iff)
  have other: "ClientID (client ''bob'' ''Org2MSP'') \<noteq> ''alice''" by (simp add: client_def)
  have cid: "ClientID (client ''bob'' ''Org2MSP'') = ''bob''" by (simp add: client_def)
  have before: "hold_of ''alice'' w_hold = Some 5" "balance_of ''bob'' w_hold = Some 1"
    "balance_of ''alice'' w_hold = Some 10"
    by (simp_all add: read_defs const_defs client_def w_of_def w_hold_def)
  from ExecuteHold_effect [OF run other, unfolded cid] before ok show ?thesis by auto
qed

text \<open>
  Claim C2 as stated fails where the caller is the holder: Alice (balance 10, hold 5)
  executes 3 of her own hold. The call succeeds and her balance is 15, not 10 + 3: the
  credit of the refund is added to the balance the call has just written. (Were the
  second read served from the state before the call, her balance would be 12, not 10 + 3
  either.)
\<close>

theorem ExecuteHold_own_hold:
  "fst (ExecuteHold (client ''alice'' ''Org2MSP'') ''alice'' 3 w_hold) = Inr ()
   \<and> balance_of ''alice'' w_hold = Some 10
   \<and> hold_of ''alice'' w_hold = Some 5
   \<and> balance_of ''alice'' (snd (ExecuteHold (client ''alice'' ''Org2MSP'') ''alice'' 3 w_hold)) = Some 15
   \<and> balance_of ''alice'' (snd (ExecuteHold (client ''alice'' ''Org2MSP'') ''alice'' 3 w_hold))
       \<noteq> Some (10 + 3)"
  by (simp add: ExecuteHold_def stub_defs const_defs client_def w_of_def w_hold_def read_defs
        Let_def signed_cmp)

text \<open>
  Claim C9, as amended: where \<open>CreateHold(a)\<close> succeeds, a \<open>ReturnHold\<close> for the same
  principal right after it succeeds, leaves the hold record at zero, and leaves the
  balance at its value before \<open>CreateHold\<close> plus the hold the principal had before
  \<open>CreateHold\<close> (nothing, if there was no hold record): the balance is restored exactly
  when no hold was outstanding.
\<close>

theorem CreateHold_ReturnHold:
  assumes "CreateHold c a w = (Inr (), w1)"
  shows "\<exists>b w2. balance_of (ClientID c) w = Some b
           \<and> ReturnHold c' (ClientID c) w1 = (Inr (), w2)
           \<and> balance_of (ClientID c) w2 =
                Some (b + (case hold_of (ClientID c) w of None \<Rightarrow> 0 | Some h \<Rightarrow> h))
           \<and> hold_of (ClientID c) w2 = Some 0"
  using assms
  by (auto simp: CreateHold_def ReturnHold_def stub_defs Let_def read_defs
           split: if_splits option.splits sum.splits)

text \<open>Alice, with nothing on hold, holds 3 of her 10 and gets them back.\<close>

theorem CreateHold_ReturnHold_witness:
  "fst (CreateHold (client ''alice'' ''Org2MSP'') 3 w_nohold) = Inr ()
   \<and> fst (ReturnHold (client ''bob'' ''Org2MSP'') ''alice''
            (snd (CreateHold (client ''alice'' ''Org2MSP'') 3 w_nohold))) = Inr ()
   \<and> balance_of ''alice''
        (snd (ReturnHold (client ''bob'' ''Org2MSP'') ''alice''
               (snd (CreateHold (client ''alice'' ''Org2MSP'') 3 w_nohold)))) = Some 10
   \<and> hold_of ''alice''
        (snd (ReturnHold (client ''bob'' ''Org2MSP'') ''alice''
               (snd (CreateHold (client ''alice'' ''Org2MSP'') 3 w_nohold)))) = Some 0"
proof -
  have ok: "fst (CreateHold (client ''alice'' ''Org2MSP'') 3 w_nohold) = Inr ()"
    by (simp add: CreateHold_def stub_defs const_defs client_def w_of_def w_nohold_def Let_def
          signed_cmp)
  then have run: "CreateHold (client ''alice'' ''Org2MSP'') 3 w_nohold
                    = (Inr (), snd (CreateHold (client ''alice'' ''Org2MSP'') 3 w_nohold))"
    by (simp add: prod_eq_iff)
  have cid: "ClientID (client ''alice'' ''Org2MSP'') = ''alice''" by (simp add: client_def)
  have before: "balance_of ''alice'' w_nohold = Some 10" "hold_of ''alice'' w_nohold = None"
    by (simp_all add: read_defs const_defs client_def w_of_def w_nohold_def)
  from CreateHold_ReturnHold [OF run, of "client ''bob'' ''Org2MSP''", unfolded cid] before ok
  show ?thesis by auto
qed

text \<open>
  Claim C9 as stated fails where a hold is already outstanding: Alice has a balance of 10
  and 5 on hold; \<open>CreateHold(3)\<close> and then \<open>ReturnHold\<close> both succeed and leave her with a
  balance of 15, not 10.
\<close>

theorem CreateHold_ReturnHold_earlier_hold:
  "fst (CreateHold (client ''alice'' ''Org2MSP'') 3 w_hold) = Inr ()
   \<and> fst (ReturnHold (client ''alice'' ''Org2MSP'') ''alice''
            (snd (CreateHold (client ''alice'' ''Org2MSP'') 3 w_hold))) = Inr ()
   \<and> balance_of ''alice'' w_hold = Some 10
   \<and> balance_of ''alice''
        (snd (ReturnHold (client ''alice'' ''Org2MSP'') ''alice''
               (snd (CreateHold (client ''alice'' ''Org2MSP'') 3 w_hold)))) = Some 15"
  by (simp add: CreateHold_def ReturnHold_def stub_defs const_defs client_def w_of_def
        w_hold_def read_defs
        Let_def signed_cmp)

section \<open>Orders\<close>

text \<open>
  Claim C5 (a successful \<open>OrderBurn\<close> stores a \<open>Burn\<close> order whether or not the order
  table existed, so that \<open>GetBurnOrder\<close> returns it). The code does so only while there
  is no order table; where one exists, the second branch of \<open>OrderBurn\<close> writes the kind
  \<open>Mint\<close>. Alice has an account and the table exists (empty): \<open>OrderBurn(5)\<close> succeeds,
  the entry stored for her is a \<open>Mint\<close> order of 5, and \<open>GetBurnOrder\<close> fails.
\<close>

theorem OrderBurn_stores_Mint:
  "fst (OrderBurn (client ''alice'' ''Org2MSP'') 5 w_table) = Inr ()
   \<and> order_of ''alice'' (snd (OrderBurn (client ''alice'' ''Org2MSP'') 5 w_table))
       = Some \<lparr>sa_MintBurn = ''Mint'', sa_Amount = 5, sa_State = ''Ordered''\<rparr>
   \<and> fst (GetBurnOrder (client ''alice'' ''Org2MSP'')
            (snd (OrderBurn (client ''alice'' ''Org2MSP'') 5 w_table)))
       = Inl ''there is no burn order''
   \<and> fst (GetMintOrder (client ''alice'' ''Org2MSP'')
            (snd (OrderBurn (client ''alice'' ''Org2MSP'') 5 w_table)))
       = Inr \<lparr>sa_MintBurn = ''Mint'', sa_Amount = 5, sa_State = ''Ordered''\<rparr>"
  by (simp add: OrderBurn_def GetBurnOrder_def GetMintOrder_def ClientAccountBalance_def
        Unmarshal_MintBurn_def map_index_def stub_defs const_defs client_def w_of_def
        w_table_def read_defs Let_def)

text \<open>The first branch, for comparison: with no order table yet, the order is a \<open>Burn\<close> order.\<close>

lemma OrderBurn_first_order:
  "fst (OrderBurn (client ''alice'' ''Org2MSP'') 5 w_nohold) = Inr ()
   \<and> fst (GetBurnOrder (client ''alice'' ''Org2MSP'')
            (snd (OrderBurn (client ''alice'' ''Org2MSP'') 5 w_nohold)))
       = Inr \<lparr>sa_MintBurn = ''Burn'', sa_Amount = 5, sa_State = ''Ordered''\<rparr>"
  by (simp add: OrderBurn_def GetBurnOrder_def ClientAccountBalance_def
        Unmarshal_MintBurn_def map_index_def stub_defs const_defs client_def w_of_def
        w_nohold_def Let_def)

text \<open>
  Claim C10: \<open>GetMintOrders\<close> and \<open>GetBurnOrders\<close> leave the world state as it is and
  issue no write, whether they succeed or fail; the entries they drop are dropped from
  the map they return.
\<close>

theorem GetOrders_frame:
  "snd (GetMintOrders c w) = w \<and> snd (GetBurnOrders c w) = w"
  by (simp add: GetMintOrders_def GetBurnOrders_def split: option.split)

lemma GetMintOrders_result:
  assumes "GetMintOrders c w = (Inr (Some mo), w')"
  shows "mo clientID = (case order_of clientID w of
                          None \<Rightarrow> None
                        | Some v \<Rightarrow> if sa_MintBurn v = ''Mint'' \<and> sa_State v = stateOrder
                                     then Some v else None)"
  using assms
  by (auto simp: GetMintOrders_def range_delete_def order_of_def GetState_def
           split: if_splits option.splits)

section \<open>Closing an auction and bidding\<close>

text \<open>
  Claim C8, as amended: the close that \<open>Bid_Rev\<close> and \<open>CheckAuction\<close> call has the
  seller check of the seller's own close, and behaves as that one does. For an existing
  auction with status open it sets the status to closed when the caller is the seller,
  and for every other caller it fails and writes nothing. (No auction is stored under
  the empty id, which \<open>PutState\<close> refuses.)
\<close>

theorem CloseAuction_checks_seller:
  assumes "kv w (Plain auctionID) = Some (AuctionV a)" and "Status a = ''open''"
  shows "CloseAuction c auctionID w = SmartContract_CloseAuction c auctionID w
       \<and> (ClientID c \<noteq> Seller a \<longrightarrow>
            CloseAuction c auctionID w = (Inl ''auction can only be closed by seller: %v'', w))
       \<and> (ClientID c = Seller a \<and> auctionID \<noteq> [] \<longrightarrow>
            CloseAuction c auctionID w =
              (Inr (),
               w\<lparr>kv := (kv w)(Plain auctionID \<mapsto> AuctionV (a\<lparr>Status := ''closed''\<rparr>)),
                 journal := (Plain auctionID, Some (AuctionV (a\<lparr>Status := ''closed''\<rparr>)))
                            # journal w\<rparr>))"
  using assms by (auto simp: CloseAuction_def SmartContract_CloseAuction_def stub_defs)

text \<open>The seller closes the open auction; Bob, a bidder, cannot.\<close>

theorem CloseAuction_checks_seller_witness:
  "fst (CloseAuction (client ''seller'' ''Org1MSP'') ''a1'' w_open) = Inr ()
   \<and> kv (snd (CloseAuction (client ''seller'' ''Org1MSP'') ''a1'' w_open)) (Plain ''a1'')
       = Some (AuctionV (auction_of ''closed'' []))
   \<and> CloseAuction (client ''bob'' ''Org2MSP'') ''a1'' w_open
       = (Inl ''auction can only be closed by seller: %v'', w_open)"
proof -
  have stored: "kv w_open (Plain ''a1'') = Some (AuctionV (auction_of ''open'' []))"
    by (simp add: w_open_def w_of_def)
  have is_open: "Status (auction_of ''open'' []) = ''open''" by (simp add: auction_of_def)
  have who: "ClientID (client ''seller'' ''Org1MSP'') = Seller (auction_of ''open'' [])"
    "ClientID (client ''bob'' ''Org2MSP'') \<noteq> Seller (auction_of ''open'' [])"
    by (simp_all add: client_def auction_of_def)
  have closed: "auction_of ''open'' []\<lparr>Status := ''closed''\<rparr> = auction_of ''closed'' []"
    by (simp add: auction_of_def)
  have "CloseAuction (client ''seller'' ''Org1MSP'') ''a1'' w_open =
          (Inr (),
           w_open\<lparr>kv := (kv w_open)(Plain ''a1'' \<mapsto> AuctionV (auction_of ''closed'' [])),
                  journal := (Plain ''a1'', Some (AuctionV (auction_of ''closed'' [])))
                             # journal w_open\<rparr>)"
    using CloseAuction_checks_seller [OF stored is_open, of "client ''seller'' ''Org1MSP''",
            THEN conjunct2, THEN conjunct2] who(1) closed
    by simp
  moreover have "CloseAuction (client ''bob'' ''Org2MSP'') ''a1'' w_open
                   = (Inl ''auction can only be closed by seller: %v'', w_open)"
    using CloseAuction_checks_seller [OF stored is_open, of "client ''bob'' ''Org2MSP''",
            THEN conjunct2, THEN conjunct1] who(2)
    by simp
  ultimately show ?thesis by simp
qed

text \<open>
  Claim C8 as stated fails: for Bob, who is not the seller, the close that \<open>Bid_Rev\<close> and
  \<open>CheckAuction\<close> call fails on the open auction and leaves its status open.
\<close>

theorem CloseAuction_refuses_bidder:
  "kv w_open (Plain ''a1'') = Some (AuctionV (auction_of ''open'' []))
   \<and> Status (auction_of ''open'' []) = ''open''
   \<and> fst (CloseAuction (client ''bob'' ''Org2MSP'') ''a1'' w_open)
       = Inl ''auction can only be closed by seller: %v''
   \<and> kv (snd (CloseAuction (client ''bob'' ''Org2MSP'') ''a1'' w_open)) (Plain ''a1'')
       = Some (AuctionV (auction_of ''open'' []))"
  by (simp add: CloseAuction_def stub_defs client_def w_of_def w_open_def auction_of_def)

text \<open>
  Claim C7 (each revealed bid is stored under a key that holds the bidder or a bid
  identifier, so that two bidders leave two entries). The code builds the key from the
  auction id alone. The seller creates the auction \<open>a1\<close>; Alice bids 60 and Bob bids 80,
  both successfully: the auction then holds one revealed bid, Bob's, while both have
  their bid on hold.
\<close>

theorem Bid_Rev_overwrites:
  "fst (CreateAuction (client ''seller'' ''Org1MSP'') ''a1'' 5 10 60 w_bidders) = Inr ()
   \<and> fst (Bid_Rev (client ''alice'' ''Org2MSP'') ''a1'' 60
            (snd (CreateAuction (client ''seller'' ''Org1MSP'') ''a1'' 5 10 60 w_bidders))) = Inr ()
   \<and> fst (Bid_Rev (client ''bob'' ''Org3MSP'') ''a1'' 80
            (snd (Bid_Rev (client ''alice'' ''Org2MSP'') ''a1'' 60
              (snd (CreateAuction (client ''seller'' ''Org1MSP'') ''a1'' 5 10 60 w_bidders))))) = Inr ()
   \<and> map_option (\<lambda>v. case v of AuctionV a \<Rightarrow> RevealedBids a | IntV n \<Rightarrow> [] | MintBurnV m \<Rightarrow> [])
        (kv (snd (Bid_Rev (client ''bob'' ''Org3MSP'') ''a1'' 80
              (snd (Bid_Rev (client ''alice'' ''Org2MSP'') ''a1'' 60
                (snd (CreateAuction (client ''seller'' ''Org1MSP'') ''a1'' 5 10 60 w_bidders))))))
            (Plain ''a1''))
       = Some [(Composite ''bid'' [''a1''],
                \<lparr>bid_Type = ''energy(KWh)'', bid_Price = 80, bid_Org = ''Org3MSP'',
                 bid_Bidder = ''bob''\<rparr>)]
   \<and> hold_of ''alice''
        (snd (Bid_Rev (client ''bob'' ''Org3MSP'') ''a1'' 80
              (snd (Bid_Rev (client ''alice'' ''Org2MSP'') ''a1'' 60
                (snd (CreateAuction (client ''seller'' ''Org1MSP'') ''a1'' 5 10 60 w_bidders))))))
       = Some 60"
  by (simp add: CreateAuction_def Bid_Rev_def CreateHold_def ClientAccountBalance_def
        Minutes_since_def contains_def stub_defs const_defs client_def w_of_def
        w_bidders_def read_defs Let_def
        signed_cmp)

text \<open>
  Whoever bids, the key of the bid is the same; a bid changes neither the price nor the
  winner of the auction.
\<close>

lemma Bid_Rev_key:
  assumes "Bid_Rev c auctionID amount w = (Inr (), w')"
  shows "\<exists>a a'. kv w (Plain auctionID) = Some (AuctionV a)
           \<and> kv w' (Plain auctionID) = Some (AuctionV a')
           \<and> RevealedBids a' =
               AList.update (Composite bidKeyType [auctionID])
                 \<lparr>bid_Type = ItemSold a, bid_Price = amount, bid_Org = MSPID c,
                  bid_Bidder = ClientID c\<rparr>
                 (RevealedBids a)
           \<and> Price a' = Price a \<and> Winner a' = Winner a \<and> Amount a' = Amount a
           \<and> PricePerKWh a' = PricePerKWh a \<and> Status a' = Status a \<and> Seller a' = Seller a"
proof -
  from assms obtain bytes where b: "kv w (Plain auctionID) = Some bytes"
    by (cases "kv w (Plain auctionID)") (auto simp: Bid_Rev_def GetState_def Let_def)
  show ?thesis
  proof (cases bytes)
    case (IntV n)
    with assms b show ?thesis by (simp add: Bid_Rev_def GetState_def Let_def)
  next
    case (MintBurnV m)
    with assms b show ?thesis
      by (simp add: Bid_Rev_def GetState_def Let_def zero_Auction_def)
  next
    case (AuctionV a)
    with assms b show ?thesis
      by (auto simp: Bid_Rev_def CreateHold_def ClientAccountBalance_def stub_defs Let_def
               split: if_splits option.splits sum.splits prod.splits)
  qed
qed

text \<open>
  \<open>CreateAuction\<close> writes the reserve as the price and no winner; the seller's close
  changes the status only.
\<close>

lemma CreateAuction_writes:
  assumes "CreateAuction c auctionID priceperkwh amount time_rem w = (Inr (), w')"
  shows "\<exists>a. kv w' (Plain auctionID) = Some (AuctionV a)
           \<and> Price a = Amount a * PricePerKWh a \<and> Winner a = []
           \<and> Amount a = amount \<and> PricePerKWh a = priceperkwh
           \<and> Status a = ''open'' \<and> Seller a = ClientID c \<and> RevealedBids a = []"
  using assms
  by (auto simp: CreateAuction_def stub_defs Let_def split: if_splits)

lemma SmartContract_CloseAuction_writes:
  assumes "SmartContract_CloseAuction c auctionID w = (Inr (), w')"
    and "kv w (Plain auctionID) = Some (AuctionV a)"
  shows "kv w' (Plain auctionID) = Some (AuctionV (a\<lparr>Status := ''closed''\<rparr>))"
  using assms
  by (auto simp: SmartContract_CloseAuction_def stub_defs split: if_splits)

section \<open>Executing an order\<close>

lemma map_index_mismatch:
  "sa_State (map_index m k) \<noteq> stateApproved \<or> sa_Amount (map_index m k) \<noteq> amount
     \<or> sa_MintBurn (map_index m k) \<noteq> kind
   \<longleftrightarrow> (case m of None \<Rightarrow> None | Some f \<Rightarrow> f k)
       \<noteq> Some \<lparr>sa_MintBurn = kind, sa_Amount = amount, sa_State = stateApproved\<rparr>"
  by (cases m; cases "the m k")
     (auto simp: map_index_def zero_St_am_def stateApproved_def split: option.splits)

lemma ExecuteMint_mismatch:
  assumes "order_of (ClientID c) w \<noteq> Some \<lparr>sa_MintBurn = ''Mint'', sa_Amount = amount, sa_State = stateApproved\<rparr>"
  shows "\<exists>e. ExecuteMint c amount w = (Inl e, w)"
  using assms map_index_mismatch [of _ "ClientID c" amount "''Mint''"]
  by (auto simp: ExecuteMint_def ClientAccountBalance_def order_of_def GetState_def Let_def
           split: option.splits)

lemma ExecuteBurn_mismatch:
  assumes "order_of (ClientID c) w \<noteq> Some \<lparr>sa_MintBurn = ''Burn'', sa_Amount = amount, sa_State = stateApproved\<rparr>"
  shows "\<exists>e. ExecuteBurn c amount w = (Inl e, w)"
  using assms map_index_mismatch [of _ "ClientID c" amount "''Burn''"]
  by (auto simp: ExecuteBurn_def ClientAccountBalance_def order_of_def GetState_def Let_def
           split: option.splits)

lemma ExecuteMint_success:
  assumes "ExecuteMint c amount w = (Inr (), w')"
    and "ClientID c \<noteq> totalSupplyKey" and "ClientID c \<noteq> MintBurnKey"
  shows "order_of (ClientID c) w = Some \<lparr>sa_MintBurn = ''Mint'', sa_Amount = amount, sa_State = stateApproved\<rparr>
       \<and> (\<exists>b. balance_of (ClientID c) w = Some b \<and> balance_of (ClientID c) w' = Some (b + amount))
       \<and> supply_of w' = supply_of w + amount
       \<and> order_of (ClientID c) w' = None
       \<and> (\<forall>other. other \<noteq> ClientID c \<longrightarrow> order_of other w' = order_of other w)
       \<and> GetMintOrder c w' = (Inl ''there is no mint order'', w')"
proof -
  from assms(1) obtain bal where bal: "kv w (Plain (ClientID c)) = Some bal"
    by (auto simp: ExecuteMint_def ClientAccountBalance_def GetState_def split: option.splits)
  from assms(1) bal obtain mintburn where mb: "Unmarshal_MintBurn (kv w (Plain MintBurnKey)) = Some mintburn"
    by (cases "Unmarshal_MintBurn (kv w (Plain MintBurnKey))")
       (auto simp: ExecuteMint_def ClientAccountBalance_def GetState_def)
  have match: "order_of (ClientID c) w = Some \<lparr>sa_MintBurn = ''Mint'', sa_Amount = amount, sa_State = stateApproved\<rparr>"
    using ExecuteMint_mismatch [of c w amount] assms(1) by auto
  then obtain state where st: "mb_State mintburn = Some state"
    using mb by (auto simp: order_of_def split: option.splits)
  from assms(1) bal mb match obtain w1 where
    m: "Mint c amount w = (Inr (), w1)"
    and p: "PutState (Plain MintBurnKey) (MintBurnV (mintburn\<lparr>mb_State := map_delete (mb_State mintburn) (ClientID c)\<rparr>)) w1 = Inr w'"
    using map_index_mismatch [of "mb_State mintburn" "ClientID c" amount "''Mint''"]
    by (auto simp: ExecuteMint_def ClientAccountBalance_def GetState_def Let_def order_of_def
             split: option.splits sum.splits prod.splits if_splits)
  from p have w': "w' = w1\<lparr>kv := (kv w1)(Plain MintBurnKey \<mapsto> MintBurnV (mintburn\<lparr>mb_State := map_delete (mb_State mintburn) (ClientID c)\<rparr>)),
       journal := (Plain MintBurnKey, Some (MintBurnV (mintburn\<lparr>mb_State := map_delete (mb_State mintburn) (ClientID c)\<rparr>))) # journal w1\<rparr>"
    by (auto simp: PutState_def split: if_splits)
  note me = Mint_effect [OF m assms(2)]
  have neq: "MintBurnKey \<noteq> totalSupplyKey" by (simp add: MintBurnKey_def totalSupplyKey_def)
  have b1: "balance_of (ClientID c) w' = Some (Atoi bal + amount)"
    using me bal assms(3) by (simp add: w' balance_of_def)
  have s1: "supply_of w' = supply_of w + amount"
    using me neq by (simp add: w' supply_of_def)
  have o1: "order_of (ClientID c) w' = None"
    by (simp add: w' order_of_def Unmarshal_MintBurn_def st map_delete_def)
  have o2: "\<forall>other. other \<noteq> ClientID c \<longrightarrow> order_of other w' = order_of other w"
    using mb st by (simp add: w' order_of_def Unmarshal_MintBurn_def map_delete_def)
  have g: "GetMintOrder c w' = (Inl ''there is no mint order'', w')"
    using b1 assms(3)
    by (auto simp: GetMintOrder_def ClientAccountBalance_def GetState_def w' Unmarshal_MintBurn_def
          st map_delete_def map_index_def zero_St_am_def balance_of_def Let_def split: option.splits)
  show ?thesis using match bal b1 s1 o1 o2 g by (simp add: balance_of_def)
qed


lemma ExecuteBurn_success:
  assumes "ExecuteBurn c amount w = (Inr (), w')"
    and "ClientID c \<noteq> totalSupplyKey" and "ClientID c \<noteq> MintBurnKey"
  shows "order_of (ClientID c) w = Some \<lparr>sa_MintBurn = ''Burn'', sa_Amount = amount, sa_State = stateApproved\<rparr>
       \<and> (\<exists>b. balance_of (ClientID c) w = Some b \<and> balance_of (ClientID c) w' = Some (b - amount))
       \<and> supply_of w' = supply_of w - amount
       \<and> order_of (ClientID c) w' = None
       \<and> (\<forall>other. other \<noteq> ClientID c \<longrightarrow> order_of other w' = order_of other w)
       \<and> GetBurnOrder c w' = (Inl ''there is no burn order'', w')"
proof -
  from assms(1) obtain bal where bal: "kv w (Plain (ClientID c)) = Some bal"
    by (auto simp: ExecuteBurn_def ClientAccountBalance_def GetState_def split: option.splits)
  from assms(1) bal obtain mintburn where mb: "Unmarshal_MintBurn (kv w (Plain MintBurnKey)) = Some mintburn"
    by (cases "Unmarshal_MintBurn (kv w (Plain MintBurnKey))")
       (auto simp: ExecuteBurn_def ClientAccountBalance_def GetState_def)
  have match: "order_of (ClientID c) w = Some \<lparr>sa_MintBurn = ''Burn'', sa_Amount = amount, sa_State = stateApproved\<rparr>"
    using ExecuteBurn_mismatch [of c w amount] assms(1) by auto
  then obtain state where st: "mb_State mintburn = Some state"
    using mb by (auto simp: order_of_def split: option.splits)
  from assms(1) bal mb match obtain w1 where
    m: "Burn c amount w = (Inr (), w1)"
    and p: "PutState (Plain MintBurnKey) (MintBurnV (mintburn\<lparr>mb_State := map_delete (mb_State mintburn) (ClientID c)\<rparr>)) w1 = Inr w'"
    using map_index_mismatch [of "mb_State mintburn" "ClientID c" amount "''Burn''"]
    by (auto simp: ExecuteBurn_def ClientAccountBalance_def GetState_def Let_def order_of_def
             split: option.splits sum.splits prod.splits if_splits)
  from p have w': "w' = w1\<lparr>kv := (kv w1)(Plain MintBurnKey \<mapsto> MintBurnV (mintburn\<lparr>mb_State := map_delete (mb_State mintburn) (ClientID c)\<rparr>)),
       journal := (Plain MintBurnKey, Some (MintBurnV (mintburn\<lparr>mb_State := map_delete (mb_State mintburn) (ClientID c)\<rparr>))) # journal w1\<rparr>"
    by (auto simp: PutState_def split: if_splits)
  note me = Burn_effect [OF m assms(2)]
  have neq: "MintBurnKey \<noteq> totalSupplyKey" by (simp add: MintBurnKey_def totalSupplyKey_def)
  have b1: "balance_of (ClientID c) w' = Some (Atoi bal - amount)"
    using me bal assms(3) by (simp add: w' balance_of_def)
  have s1: "supply_of w' = supply_of w - amount"
    using me neq by (simp add: w' supply_of_def)
  have o1: "order_of (ClientID c) w' = None"
    by (simp add: w' order_of_def Unmarshal_MintBurn_def st map_delete_def)
  have o2: "\<forall>other. other \<noteq> ClientID c \<longrightarrow> order_of other w' = order_of other w"
    using mb st by (simp add: w' order_of_def Unmarshal_MintBurn_def map_delete_def)
  have g: "GetBurnOrder c w' = (Inl ''there is no burn order'', w')"
    using b1 assms(3)
    by (auto simp: GetBurnOrder_def ClientAccountBalance_def GetState_def w' Unmarshal_MintBurn_def
          st map_delete_def map_index_def zero_St_am_def balance_of_def Let_def split: option.splits)
  show ?thesis using match bal b1 s1 o1 o2 g by (simp add: balance_of_def)
qed

text \<open>
  Claim C4: \<open>ExecuteMint(amount)\<close> succeeds only when the caller's own order entry is
  approved, of kind \<open>Mint\<close> and for exactly \<open>amount\<close>; then the caller's balance and
  the total supply are up by \<open>amount\<close>, the caller's entry is gone from the order table
  and \<open>GetMintOrder\<close> fails. Where the entry is missing or differs in state, kind or
  amount, \<open>ExecuteMint\<close> fails and writes nothing. The same holds of \<open>ExecuteBurn\<close> with
  the kind \<open>Burn\<close>, balance and total supply going down by \<open>amount\<close>. (A client id is
  never one of the two keys \<open>totalSupply\<close> and \<open>MintBurn\<close>.)
\<close>

theorem Execute_order:
  assumes "ClientID c \<noteq> totalSupplyKey" and "ClientID c \<noteq> MintBurnKey"
  shows "(\<forall>w'. ExecuteMint c amount w = (Inr (), w') \<longrightarrow>
            order_of (ClientID c) w = Some (approved ''Mint'' amount)
          \<and> (\<exists>b. balance_of (ClientID c) w = Some b \<and> balance_of (ClientID c) w' = Some (b + amount))
          \<and> supply_of w' = supply_of w + amount
          \<and> order_of (ClientID c) w' = None
          \<and> GetMintOrder c w' = (Inl ''there is no mint order'', w'))
       \<and> (order_of (ClientID c) w \<noteq> Some (approved ''Mint'' amount) \<longrightarrow>
            (\<exists>e. ExecuteMint c amount w = (Inl e, w)))
       \<and> (\<forall>w'. ExecuteBurn c amount w = (Inr (), w') \<longrightarrow>
            order_of (ClientID c) w = Some (approved ''Burn'' amount)
          \<and> (\<exists>b. balance_of (ClientID c) w = Some b \<and> balance_of (ClientID c) w' = Some (b - amount))
          \<and> supply_of w' = supply_of w - amount
          \<and> order_of (ClientID c) w' = None
          \<and> GetBurnOrder c w' = (Inl ''there is no burn order'', w'))
       \<and> (order_of (ClientID c) w \<noteq> Some (approved ''Burn'' amount) \<longrightarrow>
            (\<exists>e. ExecuteBurn c amount w = (Inl e, w)))"
proof (intro conjI allI impI)
  fix w' assume "ExecuteMint c amount w = (Inr (), w')"
  note s = ExecuteMint_success [OF this assms]
  show "order_of (ClientID c) w = Some (approved ''Mint'' amount)" using s by (simp add: approved_def)
  show "\<exists>b. balance_of (ClientID c) w = Some b \<and> balance_of (ClientID c) w' = Some (b + amount)"
    using s by blast
  show "supply_of w' = supply_of w + amount" using s by blast
  show "order_of (ClientID c) w' = None" using s by blast
  show "GetMintOrder c w' = (Inl ''there is no mint order'', w')" using s by blast
next
  assume "order_of (ClientID c) w \<noteq> Some (approved ''Mint'' amount)"
  then show "\<exists>e. ExecuteMint c amount w = (Inl e, w)"
    unfolding approved_def by (rule ExecuteMint_mismatch)
next
  fix w' assume "ExecuteBurn c amount w = (Inr (), w')"
  note s = ExecuteBurn_success [OF this assms]
  show "order_of (ClientID c) w = Some (approved ''Burn'' amount)" using s by (simp add: approved_def)
  show "\<exists>b. balance_of (ClientID c) w = Some b \<and> balance_of (ClientID c) w' = Some (b - amount)"
    using s by blast
  show "supply_of w' = supply_of w - amount" using s by blast
  show "order_of (ClientID c) w' = None" using s by blast
  show "GetBurnOrder c w' = (Inl ''there is no burn order'', w')" using s by blast
next
  assume "order_of (ClientID c) w \<noteq> Some (approved ''Burn'' amount)"
  then show "\<exists>e. ExecuteBurn c amount w = (Inl e, w)"
    unfolding approved_def by (rule ExecuteBurn_mismatch)
qed

text \<open>
  Alice executes her approved order to mint 5: her balance goes from 7 to 12, the total
  supply from 20 to 25, and her order is gone. Bob executes his approved order to burn
  4: his balance goes from 9 to 5 and the total supply from 20 to 16. Alice minting 6,
  or burning 5, fails and writes nothing.
\<close>

lemma w_orders_mint: "fst (ExecuteMint (client ''alice'' ''Org1MSP'') 5 w_orders) = Inr ()"
  by (simp add: ExecuteMint_def Mint_def ClientAccountBalance_def Unmarshal_MintBurn_def
        map_index_def approved_def stub_defs const_defs client_def w_of_def w_orders_def
        Let_def signed_cmp)

lemma w_orders_burn: "fst (ExecuteBurn (client ''bob'' ''Org1MSP'') 4 w_orders) = Inr ()"
  by (simp add: ExecuteBurn_def Burn_def ClientAccountBalance_def Unmarshal_MintBurn_def
        map_index_def approved_def stub_defs const_defs client_def w_of_def w_orders_def
        Let_def signed_cmp)

theorem Execute_order_witness:
  "fst (ExecuteMint (client ''alice'' ''Org1MSP'') 5 w_orders) = Inr ()
   \<and> balance_of ''alice'' (snd (ExecuteMint (client ''alice'' ''Org1MSP'') 5 w_orders)) = Some 12
   \<and> supply_of (snd (ExecuteMint (client ''alice'' ''Org1MSP'') 5 w_orders)) = 25
   \<and> order_of ''alice'' (snd (ExecuteMint (client ''alice'' ''Org1MSP'') 5 w_orders)) = None
   \<and> fst (ExecuteBurn (client ''bob'' ''Org1MSP'') 4 w_orders) = Inr ()
   \<and> balance_of ''bob'' (snd (ExecuteBurn (client ''bob'' ''Org1MSP'') 4 w_orders)) = Some 5
   \<and> supply_of (snd (ExecuteBurn (client ''bob'' ''Org1MSP'') 4 w_orders)) = 16
   \<and> order_of ''bob'' (snd (ExecuteBurn (client ''bob'' ''Org1MSP'') 4 w_orders)) = None
   \<and> (\<exists>e. ExecuteMint (client ''alice'' ''Org1MSP'') 6 w_orders = (Inl e, w_orders))
   \<and> (\<exists>e. ExecuteBurn (client ''alice'' ''Org1MSP'') 5 w_orders = (Inl e, w_orders))"
proof -
  have ids: "ClientID (client ''alice'' ''Org1MSP'') \<noteq> totalSupplyKey"
    "ClientID (client ''alice'' ''Org1MSP'') \<noteq> MintBurnKey"
    and ids': "ClientID (client ''bob'' ''Org1MSP'') \<noteq> totalSupplyKey"
    "ClientID (client ''bob'' ''Org1MSP'') \<noteq> MintBurnKey"
    by (simp_all add: client_def const_defs)
  have run: "ExecuteMint (client ''alice'' ''Org1MSP'') 5 w_orders
               = (Inr (), snd (ExecuteMint (client ''alice'' ''Org1MSP'') 5 w_orders))"
    using w_orders_mint by (simp add: prod_eq_iff)
  have run': "ExecuteBurn (client ''bob'' ''Org1MSP'') 4 w_orders
               = (Inr (), snd (ExecuteBurn (client ''bob'' ''Org1MSP'') 4 w_orders))"
    using w_orders_burn by (simp add: prod_eq_iff)
  have before: "balance_of ''alice'' w_orders = Some 7" "balance_of ''bob'' w_orders = Some 9"
    "supply_of w_orders = 20"
    "order_of ''alice'' w_orders = Some (approved ''Mint'' 5)"
    by (simp_all add: balance_of_def supply_of_def order_of_def Unmarshal_MintBurn_def
          w_orders_def w_of_def const_defs)
  have differs: "approved ''Mint'' 5 \<noteq> approved ''Mint'' 6" "approved ''Mint'' 5 \<noteq> approved ''Burn'' 5"
    by (simp_all add: approved_def)
  have cid: "ClientID (client ''alice'' ''Org1MSP'') = ''alice''"
    and cid': "ClientID (client ''bob'' ''Org1MSP'') = ''bob''"
    by (simp_all add: client_def)
  note A5 = Execute_order [OF ids, of 5 w_orders, unfolded cid]
  note A6 = Execute_order [OF ids, of 6 w_orders, unfolded cid]
  note B4 = Execute_order [OF ids', of 4 w_orders, unfolded cid']
  from A5 run before have
    "balance_of ''alice'' (snd (ExecuteMint (client ''alice'' ''Org1MSP'') 5 w_orders)) = Some 12
     \<and> supply_of (snd (ExecuteMint (client ''alice'' ''Org1MSP'') 5 w_orders)) = 25
     \<and> order_of ''alice'' (snd (ExecuteMint (client ''alice'' ''Org1MSP'') 5 w_orders)) = None"
    by auto
  moreover from B4 run' before have
    "balance_of ''bob'' (snd (ExecuteBurn (client ''bob'' ''Org1MSP'') 4 w_orders)) = Some 5
     \<and> supply_of (snd (ExecuteBurn (client ''bob'' ''Org1MSP'') 4 w_orders)) = 16
     \<and> order_of ''bob'' (snd (ExecuteBurn (client ''bob'' ''Org1MSP'') 4 w_orders)) = None"
    by auto
  moreover from A6 before differs have
    "\<exists>e. ExecuteMint (client ''alice'' ''Org1MSP'') 6 w_orders = (Inl e, w_orders)"
    by auto
  moreover from A5 before differs have
    "\<exists>e. ExecuteBurn (client ''alice'' ''Org1MSP'') 5 w_orders = (Inl e, w_orders)"
    by auto
  ultimately show ?thesis using w_orders_mint w_orders_burn by blast
qed

section \<open>Ending an auction\<close>

text \<open>
  The loop over the revealed bids never lowers the recorded price, ends with a price that
  no bid exceeds, and changes nothing if no bid exceeds the price it starts with.
\<close>

lemma highest_bid_unchanged:
  "\<forall>e\<in>set bids. \<not> Price a <s bid_Price (snd e) \<Longrightarrow> highest_bid bids a = a"
  by (induction bids arbitrary: a) (auto simp: Let_def)

lemma highest_bid_Price_mono: "Price a \<le>s Price (highest_bid bids a)"
proof (induction bids arbitrary: a)
  case Nil
  show ?case by simp
next
  case (Cons e bids)
  show ?case
  proof (cases "Price a <s bid_Price (snd e)")
    case True
    have "Price (a\<lparr>Winner := bid_Bidder (snd e), Price := bid_Price (snd e)\<rparr>)
            \<le>s Price (highest_bid bids (a\<lparr>Winner := bid_Bidder (snd e), Price := bid_Price (snd e)\<rparr>))"
      by (rule Cons.IH)
    with True show ?thesis by (simp add: Let_def signed_cmp)
  next
    case False
    with Cons.IH [of a] show ?thesis by (simp add: Let_def)
  qed
qed

lemma highest_bid_Price_upper:
  "e \<in> set bids \<Longrightarrow> bid_Price (snd e) \<le>s Price (highest_bid bids a)"
proof (induction bids arbitrary: a)
  case Nil
  then show ?case by simp
next
  case (Cons x bids)
  let ?a1 = "if Price a <s bid_Price (snd x)
             then a\<lparr>Winner := bid_Bidder (snd x), Price := bid_Price (snd x)\<rparr> else a"
  have step: "highest_bid (x # bids) a = highest_bid bids ?a1" by (simp add: Let_def)
  show ?case
  proof (cases "e = x")
    case True
    have "bid_Price (snd x) \<le>s Price ?a1" by (simp add: signed_cmp)
    moreover have "Price ?a1 \<le>s Price (highest_bid bids ?a1)" by (rule highest_bid_Price_mono)
    ultimately show ?thesis unfolding step True by (simp only: signed_cmp)
  next
    case False
    with Cons.prems have "e \<in> set bids" by simp
    then show ?thesis unfolding step by (rule Cons.IH)
  qed
qed

lemma highest_bid_winner:
  "\<exists>e\<in>set bids. Price a <s bid_Price (snd e) \<Longrightarrow>
   \<exists>pre e post. bids = pre @ e # post
      \<and> Price (highest_bid bids a) = bid_Price (snd e)
      \<and> Winner (highest_bid bids a) = bid_Bidder (snd e)
      \<and> (\<forall>x\<in>set pre. bid_Price (snd x) <s bid_Price (snd e))
      \<and> (\<forall>x\<in>set post. bid_Price (snd x) \<le>s bid_Price (snd e))"
proof (induction bids arbitrary: a)
  case Nil
  then show ?case by simp
next
  case (Cons x bids)
  let ?a1 = "if Price a <s bid_Price (snd x)
             then a\<lparr>Winner := bid_Bidder (snd x), Price := bid_Price (snd x)\<rparr> else a"
  have step: "highest_bid (x # bids) a = highest_bid bids ?a1" by (simp add: Let_def)
  have x_le: "bid_Price (snd x) \<le>s Price ?a1" by (simp add: signed_cmp)
  show ?case
  proof (cases "\<exists>e\<in>set bids. Price ?a1 <s bid_Price (snd e)")
    case True
    from Cons.IH [OF True] obtain pre e post where
      split: "bids = pre @ e # post"
      and price: "Price (highest_bid bids ?a1) = bid_Price (snd e)"
      and winner: "Winner (highest_bid bids ?a1) = bid_Bidder (snd e)"
      and before: "\<forall>y\<in>set pre. bid_Price (snd y) <s bid_Price (snd e)"
      and after: "\<forall>y\<in>set post. bid_Price (snd y) \<le>s bid_Price (snd e)"
      by blast
    from True obtain e' where e': "e' \<in> set bids" "Price ?a1 <s bid_Price (snd e')" by blast
    have "bid_Price (snd e') \<le>s Price (highest_bid bids ?a1)"
      using e'(1) by (rule highest_bid_Price_upper)
    with e'(2) x_le price have "bid_Price (snd x) <s bid_Price (snd e)"
      by (simp only: signed_cmp)
    with before have "\<forall>y\<in>set (x # pre). bid_Price (snd y) <s bid_Price (snd e)" by simp
    moreover have "x # bids = (x # pre) @ e # post" using split by simp
    ultimately show ?thesis using price winner after unfolding step by blast
  next
    case False
    then have same: "highest_bid bids ?a1 = ?a1" by (intro highest_bid_unchanged) blast
    from Cons.prems False have exceeds: "Price a <s bid_Price (snd x)"
      by (auto split: if_splits)
    have "\<forall>y\<in>set bids. bid_Price (snd y) \<le>s bid_Price (snd x)"
      using False exceeds by (auto simp: signed_cmp)
    moreover have "x # bids = [] @ x # bids" by simp
    moreover have "Price (highest_bid (x # bids) a) = bid_Price (snd x)"
      "Winner (highest_bid (x # bids) a) = bid_Bidder (snd x)"
      unfolding step same using exceeds by simp_all
    ultimately show ?thesis by (metis empty_iff list.set(1))
  qed
qed


text \<open>
  Claim C6: let \<open>EndAuction\<close> succeed on a stored auction whose price is still the
  reserve \<open>amount * pricePerKWh\<close> and whose winner is still empty, as \<open>CreateAuction\<close>
  writes them. Then the caller is the seller, the status was closed and there is a
  revealed bid; the record written (and then deleted) has the status ended and a price
  that no revealed bid exceeds. If some revealed bid exceeds the reserve, the record's
  price and winner are those of one revealed bid, every bid visited before it is strictly
  lower and every bid visited after it is at most equal: the winner is the first bid
  with the highest price. If no revealed bid exceeds the reserve, the winner is still
  empty and the price is still the reserve.
\<close>

theorem EndAuction_winner:
  assumes "SmartContract_EndAuction c auctionID w = (Inr (), w')"
    and "kv w (Plain auctionID) = Some (AuctionV a)"
    and "Price a = Amount a * PricePerKWh a" and "Winner a = []"
  shows "ClientID c = Seller a \<and> Status a = ''closed'' \<and> RevealedBids a \<noteq> []
       \<and> (\<exists>a'. journal w' = (Plain auctionID, None) # (Plain auctionID, Some (AuctionV a')) # journal w
             \<and> kv w' (Plain auctionID) = None
             \<and> Status a' = ''ended''
             \<and> (\<forall>x\<in>set (RevealedBids a). bid_Price (snd x) \<le>s Price a')
             \<and> (if \<exists>e\<in>set (RevealedBids a). Amount a * PricePerKWh a <s bid_Price (snd e)
                 then \<exists>pre e post. RevealedBids a = pre @ e # post
                        \<and> Price a' = bid_Price (snd e) \<and> Winner a' = bid_Bidder (snd e)
                        \<and> (\<forall>x\<in>set pre. bid_Price (snd x) <s Price a')
                        \<and> (\<forall>x\<in>set post. bid_Price (snd x) \<le>s Price a')
                 else Winner a' = [] \<and> Price a' = Amount a * PricePerKWh a))"
proof -
  let ?a1 = "highest_bid (RevealedBids a) a"
  let ?a' = "?a1\<lparr>Status := ''ended''\<rparr>"
  from assms(1,2) have pre: "ClientID c = Seller a" "Status a = ''closed''" "RevealedBids a \<noteq> []"
    by (auto simp: SmartContract_EndAuction_def GetState_def Let_def split: if_splits)
  from assms(1,2) pre have w': "journal w' = (Plain auctionID, None) # (Plain auctionID, Some (AuctionV ?a')) # journal w"
    "kv w' (Plain auctionID) = None"
    by (auto simp: SmartContract_EndAuction_def stub_defs Let_def split: if_splits)
  have upper: "\<forall>x\<in>set (RevealedBids a). bid_Price (snd x) \<le>s Price ?a'"
    by (simp add: highest_bid_Price_upper)
  have sel: "if \<exists>e\<in>set (RevealedBids a). Amount a * PricePerKWh a <s bid_Price (snd e)
             then \<exists>pre e post. RevealedBids a = pre @ e # post
                    \<and> Price ?a' = bid_Price (snd e) \<and> Winner ?a' = bid_Bidder (snd e)
                    \<and> (\<forall>x\<in>set pre. bid_Price (snd x) <s Price ?a')
                    \<and> (\<forall>x\<in>set post. bid_Price (snd x) \<le>s Price ?a')
             else Winner ?a' = [] \<and> Price ?a' = Amount a * PricePerKWh a"
  proof (cases "\<exists>e\<in>set (RevealedBids a). Price a <s bid_Price (snd e)")
    case True
    from highest_bid_winner [OF True] obtain pre e post where
      "RevealedBids a = pre @ e # post"
      "Price ?a1 = bid_Price (snd e)" "Winner ?a1 = bid_Bidder (snd e)"
      "\<forall>x\<in>set pre. bid_Price (snd x) <s bid_Price (snd e)"
      "\<forall>x\<in>set post. bid_Price (snd x) \<le>s bid_Price (snd e)"
      by blast
    then have "\<exists>pre e post. RevealedBids a = pre @ e # post
                    \<and> Price ?a' = bid_Price (snd e) \<and> Winner ?a' = bid_Bidder (snd e)
                    \<and> (\<forall>x\<in>set pre. bid_Price (snd x) <s Price ?a')
                    \<and> (\<forall>x\<in>set post. bid_Price (snd x) \<le>s Price ?a')"
      by (intro exI [of _ pre] exI [of _ e] exI [of _ post]) simp
    with True assms(3) show ?thesis by simp
  next
    case False
    then have "?a1 = a" by (intro highest_bid_unchanged) blast
    with False assms(3,4) show ?thesis by simp
  qed
  have "Status ?a' = ''ended''" by simp
  with w' upper sel have "\<exists>a'. journal w' = (Plain auctionID, None) # (Plain auctionID, Some (AuctionV a')) # journal w
             \<and> kv w' (Plain auctionID) = None
             \<and> Status a' = ''ended''
             \<and> (\<forall>x\<in>set (RevealedBids a). bid_Price (snd x) \<le>s Price a')
             \<and> (if \<exists>e\<in>set (RevealedBids a). Amount a * PricePerKWh a <s bid_Price (snd e)
                 then \<exists>pre e post. RevealedBids a = pre @ e # post
                        \<and> Price a' = bid_Price (snd e) \<and> Winner a' = bid_Bidder (snd e)
                        \<and> (\<forall>x\<in>set pre. bid_Price (snd x) <s Price a')
                        \<and> (\<forall>x\<in>set post. bid_Price (snd x) \<le>s Price a')
                 else Winner a' = [] \<and> Price a' = Amount a * PricePerKWh a)"
    by (intro exI [of _ ?a']) (simp only: simp_thms)
  with pre show ?thesis by blast
qed

text \<open>
  Three revealed bids of 60, 80 and 80 against a reserve of 50: the record written has
  the price 80 and the winner Bob, whose bid of 80 is visited before Carol's. Two
  revealed bids of 40 and 50 against the same reserve: the record written has the price
  50 and no winner.
\<close>

theorem EndAuction_winner_witness:
  "fst (SmartContract_EndAuction (client ''seller'' ''Org1MSP'') ''a1'' w_closed) = Inr ()
   \<and> (\<exists>a'. journal (snd (SmartContract_EndAuction (client ''seller'' ''Org1MSP'') ''a1'' w_closed))
               = [(Plain ''a1'', None), (Plain ''a1'', Some (AuctionV a'))]
           \<and> Status a' = ''ended'' \<and> Price a' = 80 \<and> Winner a' = ''bob'')
   \<and> fst (SmartContract_EndAuction (client ''seller'' ''Org1MSP'') ''a1'' w_closed_low) = Inr ()
   \<and> (\<exists>a'. journal (snd (SmartContract_EndAuction (client ''seller'' ''Org1MSP'') ''a1'' w_closed_low))
               = [(Plain ''a1'', None), (Plain ''a1'', Some (AuctionV a'))]
           \<and> Status a' = ''ended'' \<and> Price a' = 50 \<and> Winner a' = [])"
proof -
  let ?seller = "client ''seller'' ''Org1MSP''"
  let ?a = "auction_of ''closed'' three_bids"
  let ?b = "auction_of ''closed'' low_bids"
  have ok: "fst (SmartContract_EndAuction ?seller ''a1'' w_closed) = Inr ()"
    by (simp add: SmartContract_EndAuction_def stub_defs client_def w_of_def w_closed_def
          auction_of_def three_bids_def bid_of_def Let_def signed_cmp)
  then have run: "SmartContract_EndAuction ?seller ''a1'' w_closed
                    = (Inr (), snd (SmartContract_EndAuction ?seller ''a1'' w_closed))"
    by (simp add: prod_eq_iff)
  have ok': "fst (SmartContract_EndAuction ?seller ''a1'' w_closed_low) = Inr ()"
    by (simp add: SmartContract_EndAuction_def stub_defs client_def w_of_def w_closed_low_def
          auction_of_def low_bids_def bid_of_def Let_def signed_cmp)
  then have run': "SmartContract_EndAuction ?seller ''a1'' w_closed_low
                    = (Inr (), snd (SmartContract_EndAuction ?seller ''a1'' w_closed_low))"
    by (simp add: prod_eq_iff)
  have stored: "kv w_closed (Plain ''a1'') = Some (AuctionV ?a)"
    and stored': "kv w_closed_low (Plain ''a1'') = Some (AuctionV ?b)"
    by (simp_all add: w_closed_def w_closed_low_def w_of_def)
  have reserve: "Price ?a = Amount ?a * PricePerKWh ?a" "Price ?b = Amount ?b * PricePerKWh ?b"
    and nobody: "Winner ?a = []" "Winner ?b = []"
    by (simp_all add: auction_of_def)
  have exceeds: "\<exists>e\<in>set (RevealedBids ?a). Amount ?a * PricePerKWh ?a <s bid_Price (snd e)"
    by (simp add: auction_of_def three_bids_def bid_of_def signed_cmp)
  have none: "\<not> (\<exists>e\<in>set (RevealedBids ?b). Amount ?b * PricePerKWh ?b <s bid_Price (snd e))"
    by (simp add: auction_of_def low_bids_def bid_of_def signed_cmp)
  have empty: "journal w_closed = []" "journal w_closed_low = []"
    by (simp_all add: w_closed_def w_closed_low_def w_of_def)
  from EndAuction_winner [OF run stored reserve(1) nobody(1)] exceeds obtain a' where
    j: "journal (snd (SmartContract_EndAuction ?seller ''a1'' w_closed))
          = (Plain ''a1'', None) # (Plain ''a1'', Some (AuctionV a')) # journal w_closed"
    and st: "Status a' = ''ended''"
    by (auto split: if_splits)
  have "journal (snd (SmartContract_EndAuction ?seller ''a1'' w_closed))
          = [(Plain ''a1'', None),
             (Plain ''a1'', Some (AuctionV (?a\<lparr>Winner := ''bob'', Price := 80, Status := ''ended''\<rparr>)))]"
    by (simp add: SmartContract_EndAuction_def stub_defs client_def w_of_def w_closed_def
          auction_of_def three_bids_def bid_of_def Let_def signed_cmp)
  with j have "a' = ?a\<lparr>Winner := ''bob'', Price := 80, Status := ''ended''\<rparr>"
    by simp
  then have first: "Price a' = 80" "Winner a' = ''bob''" by simp_all
  from EndAuction_winner [OF run' stored' reserve(2) nobody(2)] none obtain b' where
    j': "journal (snd (SmartContract_EndAuction ?seller ''a1'' w_closed_low))
          = (Plain ''a1'', None) # (Plain ''a1'', Some (AuctionV b')) # journal w_closed_low"
    and st': "Status b' = ''ended''"
    and unsold: "Winner b' = []" "Price b' = Amount ?b * PricePerKWh ?b"
    by (auto split: if_splits)
  from unsold have second: "Price b' = 50" "Winner b' = []" by (simp_all add: auction_of_def)
  from ok j st first ok' j' st' second show ?thesis unfolding empty by blast
qed

end
